theory Spec2Isabelle
  imports Complex_Main "HOL-Library.Multiset"
begin

section \<open>Text and JSON values\<close>

text \<open>
  The handlers of the service read path parameters (text), JSON request bodies and the
  text that the database driver returns for a \<open>COUNT(*)\<close>. This section models the
  JavaScript and SQL conversions between text and numbers that the code relies on.
  A \<open>string\<close> is a list of characters; each element stands for one character of the
  JavaScript string.
\<close>

definition is_digit :: "char \<Rightarrow> bool" where
  "is_digit c = (c \<in> set ''0123456789'')"

definition is_space :: "char \<Rightarrow> bool" where
  \<comment> \<open>space, tab, line feed, vertical tab, form feed, carriage return\<close>
  "is_space c = (c \<in> set [CHR '' '', CHR 0x09, CHR 0x0A, CHR 0x0B, CHR 0x0C, CHR 0x0D])"

definition digit_val :: "char \<Rightarrow> nat" where
  "digit_val c = of_char c - 48"

definition digit_char :: "nat \<Rightarrow> char" where
  "digit_char d = ''0123456789'' ! d"

text \<open>Decimal notation of a natural number, without leading zeros.\<close>

fun digits :: "nat \<Rightarrow> string" where
  "digits n = (if n < 10 then [digit_char n] else digits (n div 10) @ [digit_char (n mod 10)])"

declare digits.simps [simp del]

definition nat_of_digits :: "string \<Rightarrow> nat" where
  "nat_of_digits s = foldl (\<lambda>a c. 10 * a + digit_val c) 0 s"

text \<open>
  A JSON value of a request body. Numbers are the integers; a number with a fraction,
  an array and an object (the last two are always truthy) are outside the model.
\<close>

datatype json = JNull | JBool bool | JNum int | JStr string

text \<open>
  \<open>req.body\<close> after \<open>express.json()\<close>: the parsed object, a finite map from property
  names to values. Reading a property that is absent gives JavaScript's \<open>undefined\<close>,
  here \<open>None\<close>.
\<close>

type_synonym body = "string \<rightharpoonup> json"

text \<open>JavaScript truthiness: \<open>!v\<close> holds exactly when \<open>truthy v\<close> does not.\<close>

fun truthy :: "json option \<Rightarrow> bool" where
  "truthy None = False"
| "truthy (Some JNull) = False"
| "truthy (Some (JBool b)) = b"
| "truthy (Some (JNum n)) = (n \<noteq> 0)"
| "truthy (Some (JStr s)) = (s \<noteq> [])"

text \<open>\<open>String(v)\<close>, which is also what a template literal \<open>${v}\<close> inserts.\<close>

definition js_number :: "int \<Rightarrow> string" where
  "js_number n = (if n < 0 then CHR ''-'' # digits (nat (- n)) else digits (nat n))"

fun js_string :: "json \<Rightarrow> string" where
  "js_string JNull = ''null''"
| "js_string (JBool b) = (if b then ''true'' else ''false'')"
| "js_string (JNum n) = js_number n"
| "js_string (JStr s) = s"

fun template :: "json option \<Rightarrow> string" where
  "template None = ''undefined''"
| "template (Some v) = js_string v"

text \<open>
  \<open>parseInt(s, 10)\<close>: leading white space is skipped, a sign is read, then the longest
  run of decimal digits; with no digit the result is \<open>NaN\<close>, here \<open>None\<close>.
\<close>

definition parseInt :: "string \<Rightarrow> int option" where
  "parseInt s =
     (let t = dropWhile is_space s;
          neg = (take 1 t = ''-'');
          u = (if take 1 t = ''-'' \<or> take 1 t = ''+'' then drop 1 t else t);
          ds = takeWhile is_digit u
      in if ds = [] then None
         else Some (if neg then - int (nat_of_digits ds) else int (nat_of_digits ds)))"

text \<open>A number in a JSON response: \<open>NaN\<close> is serialised as \<open>null\<close>.\<close>

definition json_number :: "int option \<Rightarrow> json" where
  "json_number v = (case v of None \<Rightarrow> JNull | Some n \<Rightarrow> JNum n)"

section \<open>The schema\<close>

text \<open>
  The five tables of the schema, one record per row. A column that may be \<open>NULL\<close> has
  an option type; \<open>id SERIAL PRIMARY KEY\<close> and the \<open>NOT NULL\<close> columns do not.
\<close>

type_synonym date = "int \<times> nat \<times> nat"

record daycare_row =
  dc_id :: int
  dc_name :: string
  dc_address :: "string option"
  dc_phone :: "string option"
  dc_email :: "string option"

record classroom_row =
  cl_id :: int
  cl_name :: string
  cl_daycare_id :: "int option"

record parent_row =
  pa_id :: int
  pa_name :: string
  pa_phone :: "string option"
  pa_email :: "string option"

record child_row =
  ch_id :: int
  ch_name :: string
  ch_date_of_birth :: date
  ch_classroom_id :: "int option"
  ch_daycare_id :: "int option"

record enrollment_row =
  en_id :: int
  en_child_id :: "int option"
  en_parent_id :: "int option"

text \<open>The stored state: the rows of each table, in storage order.\<close>

record db =
  daycare :: "daycare_row list"
  classroom :: "classroom_row list"
  parent :: "parent_row list"
  child :: "child_row list"
  enrollment :: "enrollment_row list"

text \<open>The rows that the \<open>INSERT\<close> statements of the schema file store.\<close>

definition seed :: db where
  "seed = \<lparr>
     daycare = [
       \<lparr>dc_id = 1, dc_name = ''Happy Kids Daycare'', dc_address = Some ''123 Rainbow Street'',
        dc_phone = Some ''555-111-2222'', dc_email = Some ''contact@happykids.com''\<rparr>,
       \<lparr>dc_id = 2, dc_name = ''Little Stars Academy'', dc_address = Some ''45 Sunshine Ave'',
        dc_phone = Some ''555-333-4444'', dc_email = Some ''info@littlestars.com''\<rparr>],
     classroom = [
       \<lparr>cl_id = 1, cl_name = ''Blue Butterflies'', cl_daycare_id = Some 1\<rparr>,
       \<lparr>cl_id = 2, cl_name = ''Red Rockets'', cl_daycare_id = Some 1\<rparr>,
       \<lparr>cl_id = 3, cl_name = ''Green Giraffes'', cl_daycare_id = Some 2\<rparr>,
       \<lparr>cl_id = 4, cl_name = ''Yellow Lions'', cl_daycare_id = Some 2\<rparr>],
     parent = [
       \<lparr>pa_id = 1, pa_name = ''Alice Johnson'', pa_phone = Some ''555-123-4567'',
        pa_email = Some ''alice.johnson@email.com''\<rparr>,
       \<lparr>pa_id = 2, pa_name = ''Brian Smith'', pa_phone = Some ''555-234-5678'',
        pa_email = Some ''brian.smith@email.com''\<rparr>,
       \<lparr>pa_id = 3, pa_name = ''Catherine Lee'', pa_phone = Some ''555-345-6789'',
        pa_email = Some ''catherine.lee@email.com''\<rparr>,
       \<lparr>pa_id = 4, pa_name = ''David Brown'', pa_phone = Some ''555-456-7890'',
        pa_email = Some ''david.brown@email.com''\<rparr>],
     child = [
       \<lparr>ch_id = 1, ch_name = ''Emily Johnson'', ch_date_of_birth = (2020, 5, 12),
        ch_classroom_id = Some 1, ch_daycare_id = Some 1\<rparr>,
       \<lparr>ch_id = 2, ch_name = ''Liam Smith'', ch_date_of_birth = (2019, 8, 3),
        ch_classroom_id = Some 2, ch_daycare_id = Some 1\<rparr>,
       \<lparr>ch_id = 3, ch_name = ''Olivia Lee'', ch_date_of_birth = (2021, 2, 25),
        ch_classroom_id = Some 3, ch_daycare_id = Some 2\<rparr>,
       \<lparr>ch_id = 4, ch_name = ''Noah Brown'', ch_date_of_birth = (2020, 11, 17),
        ch_classroom_id = Some 4, ch_daycare_id = Some 2\<rparr>,
       \<lparr>ch_id = 5, ch_name = ''Sophia Smith'', ch_date_of_birth = (2022, 1, 30),
        ch_classroom_id = Some 2, ch_daycare_id = Some 1\<rparr>],
     enrollment = [
       \<lparr>en_id = 1, en_child_id = Some 1, en_parent_id = Some 1\<rparr>,
       \<lparr>en_id = 2, en_child_id = Some 2, en_parent_id = Some 2\<rparr>,
       \<lparr>en_id = 3, en_child_id = Some 3, en_parent_id = Some 3\<rparr>,
       \<lparr>en_id = 4, en_child_id = Some 4, en_parent_id = Some 4\<rparr>,
       \<lparr>en_id = 5, en_child_id = Some 5, en_parent_id = Some 2\<rparr>]\<rparr>"

section \<open>The database engine\<close>

text \<open>
  The handlers reach the database through \<open>pool.query\<close>. The pool and the engine
  behind it are not part of the sources; they are modelled here for the statements that
  the handlers issue and for the column types, \<open>NOT NULL\<close> constraints and foreign keys
  that the schema declares. A statement either fails with an error, which the handler's
  \<open>catch\<close> turns into a response, or yields a result and the next stored state.
  Failures of the connection itself are not modelled: the states considered are those
  of a reachable database.
\<close>

datatype error =
    InvalidTextRepresentation
  | NumericValueOutOfRange
  | StringDataRightTruncation
  | CharacterNotInRepertoire
  | InvalidDatetimeFormat
  | NotNullViolation
  | ForeignKeyViolation
  | SyntaxError
  | TypeError

text \<open>The driver's result object: the rows returned and the number of rows affected.\<close>

record 'r result =
  rows :: "'r list"
  rowCount :: nat

definition and_then :: "error + 'a \<Rightarrow> ('a \<Rightarrow> error + 'b) \<Rightarrow> error + 'b" where
  "and_then r f = (case r of Inl e \<Rightarrow> Inl e | Inr x \<Rightarrow> f x)"

text \<open>A conversion or a statement that raises no error.\<close>

definition fits :: "error + 'a \<Rightarrow> bool" where
  "fits r = (case r of Inl e \<Rightarrow> False | Inr v \<Rightarrow> True)"

text \<open>
  Modelled from the spec: the driver's conversion of a statement parameter. \<open>null\<close> and
  \<open>undefined\<close> are sent as \<open>NULL\<close>, every other value as its text.
\<close>

fun prepareValue :: "json option \<Rightarrow> string option" where
  "prepareValue None = None"
| "prepareValue (Some JNull) = None"
| "prepareValue (Some v) = Some (js_string v)"

text \<open>
  Modelled from the spec: the engine's input conversion of a text parameter bound to an
  \<open>INT\<close> column: optional white space around an optionally signed run of decimal
  digits, within the 32-bit range.
\<close>

definition int4_in :: "string \<Rightarrow> error + int" where
  "int4_in s =
     (let t = dropWhile is_space s;
          neg = (take 1 t = ''-'');
          u = (if take 1 t = ''-'' \<or> take 1 t = ''+'' then drop 1 t else t);
          ds = takeWhile is_digit u;
          rest = dropWhile is_digit u;
          v = (if neg then - int (nat_of_digits ds) else int (nat_of_digits ds))
      in if ds = [] \<or> \<not> list_all is_space rest then Inl InvalidTextRepresentation
         else if v < - 2147483648 \<or> 2147483647 < v then Inl NumericValueOutOfRange
         else Inr v)"

definition int4_param :: "string option \<Rightarrow> error + int option" where
  "int4_param p = (case p of None \<Rightarrow> Inr None | Some t \<Rightarrow> and_then (int4_in t) (\<lambda>v. Inr (Some v)))"

text \<open>
  Modelled from the spec: a text parameter assigned to a \<open>VARCHAR(n)\<close> column. Text
  holds no NUL character; a longer value is an error unless the excess is spaces only,
  which are cut off.
\<close>

definition varchar_in :: "nat \<Rightarrow> string \<Rightarrow> error + string" where
  "varchar_in n s =
     (if CHR 0x00 \<in> set s then Inl CharacterNotInRepertoire
      else if length s \<le> n then Inr s
      else if list_all (\<lambda>c. c = CHR '' '') (drop n s) then Inr (take n s)
      else Inl StringDataRightTruncation)"

definition varchar_param :: "nat \<Rightarrow> string option \<Rightarrow> error + string option" where
  "varchar_param n p =
     (case p of None \<Rightarrow> Inr None | Some t \<Rightarrow> and_then (varchar_in n t) (\<lambda>v. Inr (Some v)))"

text \<open>
  The engine's input conversion for \<open>DATE\<close> accepts many notations; it is a parameter
  \<open>date_in\<close> of the model, \<open>None\<close> where the engine rejects the text.
\<close>

definition date_param :: "(string \<Rightarrow> date option) \<Rightarrow> string option \<Rightarrow> error + date option" where
  "date_param date_in p =
     (case p of None \<Rightarrow> Inr None
      | Some t \<Rightarrow> (case date_in t of None \<Rightarrow> Inl InvalidDatetimeFormat | Some d \<Rightarrow> Inr (Some d)))"

text \<open>A foreign key holds when the column is \<open>NULL\<close> or names a stored key.\<close>

definition references :: "int option \<Rightarrow> int list \<Rightarrow> bool" where
  "references v keys = (case v of None \<Rightarrow> True | Some k \<Rightarrow> k \<in> set keys)"

subsection \<open>Reading\<close>

text \<open>
  \<open>SELECT COUNT(*) AS total FROM t\<close>: the count is a 64-bit integer, which the driver
  delivers as decimal text.
\<close>

definition query_count :: "'r list \<Rightarrow> error + string" where
  "query_count t = Inr (digits (length t))"

text \<open>\<open>SELECT * FROM t ORDER BY id ASC\<close>\<close>

definition query_all :: "('r \<Rightarrow> int) \<Rightarrow> 'r list \<Rightarrow> error + 'r result" where
  "query_all key t = (let rs = sort_key key t in Inr \<lparr>rows = rs, rowCount = length rs\<rparr>)"

text \<open>\<open>SELECT * FROM t WHERE id = $1\<close>\<close>

definition query_by_id :: "('r \<Rightarrow> int) \<Rightarrow> 'r list \<Rightarrow> string \<Rightarrow> error + 'r result" where
  "query_by_id key t p =
     and_then (int4_in p)
       (\<lambda>k. let rs = filter (\<lambda>r. key r = k) t in Inr \<lparr>rows = rs, rowCount = length rs\<rparr>)"

subsection \<open>Deleting, with the referential actions of the schema\<close>

text \<open>
  \<open>enrollment.child_id REFERENCES child(id) ON DELETE CASCADE\<close>: removing children
  removes their enrollments.
\<close>

definition remove_children :: "(child_row \<Rightarrow> bool) \<Rightarrow> db \<Rightarrow> db" where
  "remove_children P s =
     (let gone = map ch_id (filter P (child s))
      in s\<lparr>child := filter (\<lambda>c. \<not> P c) (child s),
           enrollment := filter (\<lambda>e. en_child_id e \<notin> set (map Some gone)) (enrollment s)\<rparr>)"

text \<open>\<open>enrollment.parent_id REFERENCES parent(id) ON DELETE CASCADE\<close>\<close>

definition remove_parents :: "(parent_row \<Rightarrow> bool) \<Rightarrow> db \<Rightarrow> db" where
  "remove_parents P s =
     (let gone = map pa_id (filter P (parent s))
      in s\<lparr>parent := filter (\<lambda>p. \<not> P p) (parent s),
           enrollment := filter (\<lambda>e. en_parent_id e \<notin> set (map Some gone)) (enrollment s)\<rparr>)"

text \<open>
  \<open>child.classroom_id REFERENCES classroom(id) ON DELETE SET NULL\<close>: removing
  classrooms keeps their children and clears the column.
\<close>

definition remove_classrooms :: "(classroom_row \<Rightarrow> bool) \<Rightarrow> db \<Rightarrow> db" where
  "remove_classrooms P s =
     (let gone = map cl_id (filter P (classroom s))
      in s\<lparr>classroom := filter (\<lambda>c. \<not> P c) (classroom s),
           child := map (\<lambda>c. if ch_classroom_id c \<in> set (map Some gone)
                              then c\<lparr>ch_classroom_id := None\<rparr> else c) (child s)\<rparr>)"

text \<open>
  \<open>classroom.daycare_id\<close> and \<open>child.daycare_id REFERENCES daycare(id) ON DELETE
  CASCADE\<close>: removing daycares removes their classrooms and their children, each with
  its own referential actions.
\<close>

definition remove_daycares :: "(daycare_row \<Rightarrow> bool) \<Rightarrow> db \<Rightarrow> db" where
  "remove_daycares P s =
     (let gone = map dc_id (filter P (daycare s))
      in remove_children (\<lambda>c. ch_daycare_id c \<in> set (map Some gone))
           (remove_classrooms (\<lambda>c. cl_daycare_id c \<in> set (map Some gone))
              (s\<lparr>daycare := filter (\<lambda>d. \<not> P d) (daycare s)\<rparr>)))"

text \<open>\<open>DELETE FROM t WHERE id = $1\<close>, for the four tables deleted with a parameter.\<close>

definition query_delete_daycare :: "string \<Rightarrow> db \<Rightarrow> error + (daycare_row result \<times> db)" where
  "query_delete_daycare p s =
     and_then (int4_in p)
       (\<lambda>k. Inr (\<lparr>rows = [], rowCount = length (filter (\<lambda>r. dc_id r = k) (daycare s))\<rparr>,
                 remove_daycares (\<lambda>r. dc_id r = k) s))"

definition query_delete_classroom :: "string \<Rightarrow> db \<Rightarrow> error + (classroom_row result \<times> db)" where
  "query_delete_classroom p s =
     and_then (int4_in p)
       (\<lambda>k. Inr (\<lparr>rows = [], rowCount = length (filter (\<lambda>r. cl_id r = k) (classroom s))\<rparr>,
                 remove_classrooms (\<lambda>r. cl_id r = k) s))"

definition query_delete_parent :: "string \<Rightarrow> db \<Rightarrow> error + (parent_row result \<times> db)" where
  "query_delete_parent p s =
     and_then (int4_in p)
       (\<lambda>k. Inr (\<lparr>rows = [], rowCount = length (filter (\<lambda>r. pa_id r = k) (parent s))\<rparr>,
                 remove_parents (\<lambda>r. pa_id r = k) s))"

definition query_delete_child :: "string \<Rightarrow> db \<Rightarrow> error + (child_row result \<times> db)" where
  "query_delete_child p s =
     and_then (int4_in p)
       (\<lambda>k. Inr (\<lparr>rows = [], rowCount = length (filter (\<lambda>r. ch_id r = k) (child s))\<rparr>,
                 remove_children (\<lambda>r. ch_id r = k) s))"

subsection \<open>Updating\<close>

text \<open>
  \<open>UPDATE t SET ... WHERE id = $n RETURNING *\<close>. The parameters are converted to the
  column types when the statement is bound, so a conversion error is raised whether or
  not a row matches; \<open>NOT NULL\<close> and the foreign keys are checked on the rows that are
  written.
\<close>

definition write_rows ::
  "('r \<Rightarrow> int) \<Rightarrow> int \<Rightarrow> ('r \<Rightarrow> 'r) \<Rightarrow> 'r list \<Rightarrow> 'r result \<times> 'r list" where
  "write_rows key k upd t =
     (\<lparr>rows = map upd (filter (\<lambda>r. key r = k) t),
       rowCount = length (filter (\<lambda>r. key r = k) t)\<rparr>,
      map (\<lambda>r. if key r = k then upd r else r) t)"

definition query_update_daycare ::
  "string option \<Rightarrow> string option \<Rightarrow> string option \<Rightarrow> string option \<Rightarrow> string \<Rightarrow> db
     \<Rightarrow> error + (daycare_row result \<times> db)" where
  "query_update_daycare p1 p2 p3 p4 p5 s =
     and_then (varchar_param 150 p1) (\<lambda>name.
     and_then (varchar_param 255 p2) (\<lambda>address.
     and_then (varchar_param 20 p3) (\<lambda>phone.
     and_then (varchar_param 150 p4) (\<lambda>email.
     and_then (int4_in p5) (\<lambda>k.
       if filter (\<lambda>r. dc_id r = k) (daycare s) = [] then Inr (\<lparr>rows = [], rowCount = 0\<rparr>, s)
       else (case name of
           None \<Rightarrow> Inl NotNullViolation
         | Some n \<Rightarrow>
             (let (res, t) = write_rows dc_id k
                    (\<lambda>r. r\<lparr>dc_name := n, dc_address := address, dc_phone := phone,
                           dc_email := email\<rparr>) (daycare s)
              in Inr (res, s\<lparr>daycare := t\<rparr>))))))))"

definition query_update_classroom ::
  "string option \<Rightarrow> string option \<Rightarrow> string \<Rightarrow> db \<Rightarrow> error + (classroom_row result \<times> db)" where
  "query_update_classroom p1 p2 p3 s =
     and_then (varchar_param 100 p1) (\<lambda>name.
     and_then (int4_param p2) (\<lambda>daycare_id.
     and_then (int4_in p3) (\<lambda>k.
       if filter (\<lambda>r. cl_id r = k) (classroom s) = [] then Inr (\<lparr>rows = [], rowCount = 0\<rparr>, s)
       else (case name of
           None \<Rightarrow> Inl NotNullViolation
         | Some n \<Rightarrow>
             if \<not> references daycare_id (map dc_id (daycare s)) then Inl ForeignKeyViolation
             else (let (res, t) = write_rows cl_id k
                         (\<lambda>r. r\<lparr>cl_name := n, cl_daycare_id := daycare_id\<rparr>) (classroom s)
                   in Inr (res, s\<lparr>classroom := t\<rparr>))))))"

definition query_update_parent ::
  "string option \<Rightarrow> string option \<Rightarrow> string option \<Rightarrow> string \<Rightarrow> db
     \<Rightarrow> error + (parent_row result \<times> db)" where
  "query_update_parent p1 p2 p3 p4 s =
     and_then (varchar_param 100 p1) (\<lambda>name.
     and_then (varchar_param 20 p2) (\<lambda>phone.
     and_then (varchar_param 150 p3) (\<lambda>email.
     and_then (int4_in p4) (\<lambda>k.
       if filter (\<lambda>r. pa_id r = k) (parent s) = [] then Inr (\<lparr>rows = [], rowCount = 0\<rparr>, s)
       else (case name of
           None \<Rightarrow> Inl NotNullViolation
         | Some n \<Rightarrow>
             (let (res, t) = write_rows pa_id k
                    (\<lambda>r. r\<lparr>pa_name := n, pa_phone := phone, pa_email := email\<rparr>) (parent s)
              in Inr (res, s\<lparr>parent := t\<rparr>)))))))"

definition query_update_child ::
  "(string \<Rightarrow> date option) \<Rightarrow> string option \<Rightarrow> string option \<Rightarrow> string option
     \<Rightarrow> string option \<Rightarrow> string \<Rightarrow> db \<Rightarrow> error + (child_row result \<times> db)" where
  "query_update_child date_in p1 p2 p3 p4 p5 s =
     and_then (varchar_param 100 p1) (\<lambda>name.
     and_then (date_param date_in p2) (\<lambda>date_of_birth.
     and_then (int4_param p3) (\<lambda>classroom_id.
     and_then (int4_param p4) (\<lambda>daycare_id.
     and_then (int4_in p5) (\<lambda>k.
       if filter (\<lambda>r. ch_id r = k) (child s) = [] then Inr (\<lparr>rows = [], rowCount = 0\<rparr>, s)
       else (case (name, date_of_birth) of
           (Some n, Some d) \<Rightarrow>
             if \<not> references classroom_id (map cl_id (classroom s))
                \<or> \<not> references daycare_id (map dc_id (daycare s))
             then Inl ForeignKeyViolation
             else (let (res, t) = write_rows ch_id k
                         (\<lambda>r. r\<lparr>ch_name := n, ch_date_of_birth := d,
                                ch_classroom_id := classroom_id, ch_daycare_id := daycare_id\<rparr>)
                         (child s)
                   in Inr (res, s\<lparr>child := t\<rparr>))
         | _ \<Rightarrow> Inl NotNullViolation))))))"

subsection \<open>Statements sent as text\<close>

text \<open>
  The enrollment handlers that take an id build the statement by inserting the path
  parameter (and, for the update, two fields of the body) into the SQL text, and send it
  without parameters. The engine then reads whatever the text says, and a text without
  parameters may hold several statements separated by semicolons. The model reads the
  three statement shapes that these handlers write, with decimal integer literals, any
  number of them in one text, and \<open>--\<close> comments; it rejects every other text as a
  syntax error, although the engine accepts many more.
\<close>

definition lower :: "char \<Rightarrow> char" where
  "lower c = (case map_of (zip ''ABCDEFGHIJKLMNOPQRSTUVWXYZ'' ''abcdefghijklmnopqrstuvwxyz'') c of
      Some l \<Rightarrow> l | None \<Rightarrow> c)"

text \<open>
  Tokens are text: a word in lower case (key words and unquoted names are not case
  sensitive), or one of the marks \<open>= , * ;\<close>.
\<close>

definition is_mark :: "char \<Rightarrow> bool" where
  "is_mark c = (c \<in> set ''=,*;'')"

fun flush :: "string \<Rightarrow> string list" where
  "flush [] = []"
| "flush w = [map lower w]"

text \<open>
  The lexer: the flag says whether a comment is being skipped, \<open>w\<close> is the word read
  so far.
\<close>

fun lex :: "bool \<Rightarrow> string \<Rightarrow> string \<Rightarrow> string list" where
  "lex cm w [] = flush w"
| "lex True w (c # s) = (if c = CHR 0x0A then lex False w s else lex True w s)"
| "lex False w (c # s) =
     (if c = CHR ''-'' \<and> take 1 s = ''-'' then flush w @ lex True [] s
      else if is_space c then flush w @ lex False [] s
      else if is_mark c then flush w @ [c] # lex False [] s
      else lex False (w @ [c]) s)"

text \<open>The statements of a text: the runs of tokens between semicolons that are not empty.\<close>

fun split_semi :: "string list \<Rightarrow> string list \<Rightarrow> string list list" where
  "split_semi cur [] = (if cur = [] then [] else [cur])"
| "split_semi cur (t # ts) =
     (if t = '';'' then (if cur = [] then [] else [cur]) @ split_semi [] ts
      else split_semi (cur @ [t]) ts)"

text \<open>A statement shape: the tokens in order, \<open>None\<close> where a literal stands.\<close>

fun match :: "string option list \<Rightarrow> string list \<Rightarrow> string list option" where
  "match [] [] = Some []"
| "match (Some k # ps) (t # ts) = (if k = t then match ps ts else None)"
| "match (None # ps) (t # ts) = map_option ((#) t) (match ps ts)"
| "match _ _ = None"

definition select_shape :: "string option list" where
  "select_shape = [Some ''select'', Some ''*'', Some ''from'', Some ''public.enrollment'',
     Some ''where'', Some ''public.enrollment.id'', Some ''='', None]"

definition order_by :: "string option list" where
  "order_by = [Some ''order'', Some ''by'', Some ''id'', Some ''asc'']"

definition delete_shape :: "string option list" where
  "delete_shape = [Some ''delete'', Some ''from'', Some ''public.enrollment'',
     Some ''where'', Some ''public.enrollment.id'', Some ''='', None]"

definition update_shape :: "string option list" where
  "update_shape = [Some ''update'', Some ''public.enrollment'', Some ''set'',
     Some ''child_id'', Some ''='', None, Some '','', Some ''parent_id'', Some ''='', None,
     Some ''where'', Some ''id'', Some ''='', None, Some ''returning'', Some ''*'']"

text \<open>An integer literal: decimal digits, with an optional minus sign in front.\<close>

definition sql_int :: "string \<Rightarrow> int option" where
  "sql_int w =
     (let ds = (if take 1 w = ''-'' then drop 1 w else w)
      in if ds = [] \<or> \<not> list_all is_digit ds then None
         else Some (if take 1 w = ''-'' then - int (nat_of_digits ds) else int (nat_of_digits ds)))"

datatype stmt = Select int | Delete int | Update int int int

definition parse_stmt :: "string list \<Rightarrow> stmt option" where
  "parse_stmt ts =
     (case match select_shape ts of
        Some [v] \<Rightarrow> map_option Select (sql_int v)
      | _ \<Rightarrow>
     (case match (select_shape @ order_by) ts of
        Some [v] \<Rightarrow> map_option Select (sql_int v)
      | _ \<Rightarrow>
     (case match delete_shape ts of
        Some [v] \<Rightarrow> map_option Delete (sql_int v)
      | _ \<Rightarrow>
     (case match update_shape ts of
        Some [c, p, v] \<Rightarrow>
          (case (sql_int c, sql_int p, sql_int v) of
             (Some a, Some b, Some k) \<Rightarrow> Some (Update a b k)
           | _ \<Rightarrow> None)
      | _ \<Rightarrow> None))))"

definition parse_sql :: "string \<Rightarrow> stmt list option" where
  "parse_sql sql = those (map parse_stmt (split_semi [] (lex False [] sql)))"

definition in_int4 :: "int \<Rightarrow> bool" where
  "in_int4 v = (- 2147483648 \<le> v \<and> v \<le> 2147483647)"

text \<open>
  One statement on the enrollment table. No table refers to enrollment, so a delete has
  no further effect. An update stores the literals in the two \<open>INT\<close> columns, which
  refer to child and parent.
\<close>

fun exec_stmt :: "stmt \<Rightarrow> db \<Rightarrow> error + (enrollment_row result \<times> db)" where
  "exec_stmt (Select k) s =
     (let rs = sort_key en_id (filter (\<lambda>r. en_id r = k) (enrollment s))
      in Inr (\<lparr>rows = rs, rowCount = length rs\<rparr>, s))"
| "exec_stmt (Delete k) s =
     Inr (\<lparr>rows = [], rowCount = length (filter (\<lambda>r. en_id r = k) (enrollment s))\<rparr>,
          s\<lparr>enrollment := filter (\<lambda>r. en_id r \<noteq> k) (enrollment s)\<rparr>)"
| "exec_stmt (Update a b k) s =
     (if \<not> in_int4 a \<or> \<not> in_int4 b then Inl NumericValueOutOfRange
      else if filter (\<lambda>r. en_id r = k) (enrollment s) = [] then Inr (\<lparr>rows = [], rowCount = 0\<rparr>, s)
      else if \<not> references (Some a) (map ch_id (child s))
              \<or> \<not> references (Some b) (map pa_id (parent s))
      then Inl ForeignKeyViolation
      else (let (res, t) = write_rows en_id k
                  (\<lambda>r. r\<lparr>en_child_id := Some a, en_parent_id := Some b\<rparr>) (enrollment s)
            in Inr (res, s\<lparr>enrollment := t\<rparr>)))"

text \<open>
  The statements of one text run in order inside one transaction: an error in any of
  them leaves the stored state as it was before the text.
\<close>

fun exec_all :: "stmt list \<Rightarrow> db \<Rightarrow> error + (enrollment_row result list \<times> db)" where
  "exec_all [] s = Inr ([], s)"
| "exec_all (q # qs) s =
     and_then (exec_stmt q s) (\<lambda>(r, s1).
     and_then (exec_all qs s1) (\<lambda>(rs, s2). Inr (r # rs, s2)))"

text \<open>
  What \<open>pool.query(text)\<close> resolves to: the result object of a single statement, or an
  array of result objects when the text held several.
\<close>

datatype 'r reply = Single "'r result" | Several "'r result list"

definition query_text :: "string \<Rightarrow> db \<Rightarrow> error + (enrollment_row reply \<times> db)" where
  "query_text sql s =
     (case parse_sql sql of
        None \<Rightarrow> Inl SyntaxError
      | Some qs \<Rightarrow>
          and_then (exec_all qs s)
            (\<lambda>(rs, s1). Inr (case rs of [r] \<Rightarrow> Single r | _ \<Rightarrow> Several rs, s1)))"

section \<open>The latency histogram\<close>

text \<open>
  The metrics module keeps one histogram in a registry of its own. The histogram is
  modelled by its configuration and the observations made so far, each the values of the
  labels and the observed number of seconds; what a scrape shows is computed from them.
  Durations are exact rationals here, where the code has floating-point numbers. The
  process metrics that the registry also collects are outside the model.
\<close>

record histogram =
  hist_name :: string
  hist_help :: string
  labelNames :: "string list"
  buckets :: "rat list"
  observed :: "(string list \<times> rat) list"

definition httpDuration :: histogram where
  "httpDuration = \<lparr>
     hist_name = ''http_request_duration_seconds'',
     hist_help = ''Latencia dos pedidos HTTP'',
     labelNames = [''method'', ''route'', ''code''],
     buckets = [5 / 1000, 1 / 100, 25 / 1000, 5 / 100, 1 / 10, 25 / 100, 5 / 10, 1, 2, 5],
     observed = []\<rparr>"

definition observe :: "string list \<Rightarrow> rat \<Rightarrow> histogram \<Rightarrow> histogram" where
  "observe labels v h = h\<lparr>observed := observed h @ [(labels, v)]\<rparr>"

text \<open>
  The samples of the exposition: for every combination of label values, the cumulative
  count of each bucket (\<open>None\<close> is the bucket \<open>+Inf\<close>), the sum and the count.
\<close>

datatype sample =
    Bucket "string list" "rat option" nat
  | Total "string list" rat
  | Count "string list" nat

definition series :: "histogram \<Rightarrow> string list \<Rightarrow> sample list" where
  "series h labels =
     (let vs = map snd (filter (\<lambda>ob. fst ob = labels) (observed h))
      in map (\<lambda>b. Bucket labels (Some b) (length (filter (\<lambda>v. v \<le> b) vs))) (buckets h)
         @ [Bucket labels None (length vs), Total labels (sum_list vs), Count labels (length vs)])"

definition exposition :: "histogram \<Rightarrow> sample list" where
  "exposition h = concat (map (series h) (remdups (map fst (observed h))))"

fun sample_labels :: "sample \<Rightarrow> string list" where
  "sample_labels (Bucket l b n) = l"
| "sample_labels (Total l v) = l"
| "sample_labels (Count l n) = l"

section \<open>Responses\<close>

text \<open>
  A response is a status code and a JSON body. The bodies that the handlers build are
  kept in their shape, one constructor per shape, with the stored rows as they are.
\<close>

datatype row =
    Daycare daycare_row
  | Classroom classroom_row
  | Parent parent_row
  | Child child_row
  | Enrollment enrollment_row

datatype payload =
    Health
    \<comment> \<open>\<open>{status: "UP"}\<close>\<close>
  | Listing string json "row list"
    \<comment> \<open>\<open>{<name>_count: count, data: rows}\<close>, with the name of the count property\<close>
  | Found "row list"
    \<comment> \<open>\<open>{data: rows}\<close>\<close>
  | Message string string
    \<comment> \<open>\<open>{status, message}\<close>\<close>
  | Updated string string "row option"
    \<comment> \<open>\<open>{status, message, updated_data}\<close>; \<open>None\<close> is \<open>undefined\<close>, a property that
        the JSON text leaves out\<close>
  | Failed error
    \<comment> \<open>\<open>{status: "error", error: err.message}\<close>\<close>
  | Exposition "sample list"
    \<comment> \<open>the text of a scrape\<close>
  | Document
    \<comment> \<open>what the documentation pages answer\<close>
  | Allow
    \<comment> \<open>the framework's own answer to \<open>OPTIONS\<close>\<close>
  | BadBody
    \<comment> \<open>the framework's own answer to a body that is not JSON\<close>
  | BadParam
    \<comment> \<open>the framework's own answer to a path parameter that cannot be decoded\<close>
  | NoRoute
    \<comment> \<open>the framework's own answer when nothing handles the request\<close>

record response =
  code :: nat
  content :: payload

definition reply_json :: "nat \<Rightarrow> payload \<Rightarrow> response" where
  "reply_json c p = \<lparr>code = c, content = p\<rparr>"

text \<open>\<open>rows[0]\<close> of a JavaScript array: \<open>undefined\<close> when the array is empty.\<close>

definition first_row :: "'r list \<Rightarrow> 'r option" where
  "first_row rs = (case rs of [] \<Rightarrow> None | r # _ \<Rightarrow> Some r)"

section \<open>The handlers\<close>

text \<open>
  Each handler takes what it reads from the request (the \<open>:id\<close> path parameter, the
  body) and the stored state, and gives the response and the stored state afterwards.
  The \<open>try\<close>/\<open>catch\<close> of the source is the case distinction on the statement's outcome.
\<close>

definition health :: "db \<Rightarrow> response \<times> db" where
  "health s = (reply_json 200 Health, s)"

subsection \<open>Daycare\<close>

definition get_daycares :: "db \<Rightarrow> response \<times> db" where
  "get_daycares s =
     (case and_then (query_count (daycare s)) (\<lambda>cnt.
           and_then (query_all dc_id (daycare s)) (\<lambda>data. Inr (cnt, data))) of
        Inl err \<Rightarrow> (reply_json 500 (Failed err), s)
      | Inr (cnt, data) \<Rightarrow>
          (reply_json 200 (Listing ''daycares_count'' (json_number (parseInt cnt))
             (map Daycare (rows data))), s))"

definition get_daycare :: "string \<Rightarrow> db \<Rightarrow> response \<times> db" where
  "get_daycare id' s =
     (case query_by_id dc_id (daycare s) id' of
        Inl err \<Rightarrow> (reply_json 500 (Failed err), s)
      | Inr result \<Rightarrow>
          if length (rows result) = 0
          then (reply_json 404 (Message ''not_found'' ''Daycare not found''), s)
          else (reply_json 200 (Found (map Daycare (rows result))), s))"

definition delete_daycare :: "string \<Rightarrow> db \<Rightarrow> response \<times> db" where
  "delete_daycare id' s =
     (case query_delete_daycare id' s of
        Inl err \<Rightarrow> (reply_json 500 (Failed err), s)
      | Inr (result, s1) \<Rightarrow>
          if rowCount result = 0
          then (reply_json 404 (Message ''not_found'' ''Daycare not found''), s1)
          else (reply_json 200 (Message ''success'' ''Daycare deleted successfully''), s1))"

definition update_daycare :: "string \<Rightarrow> body \<Rightarrow> db \<Rightarrow> response \<times> db" where
  "update_daycare id' b s =
     (let name = b ''name''; address = b ''address''; phone = b ''phone''; email = b ''email''
      in if \<not> truthy name \<or> \<not> truthy address \<or> \<not> truthy phone \<or> \<not> truthy email
         then (reply_json 400
                 (Message ''error'' ''All fields (name, address, phone, email) are required''), s)
         else (case query_update_daycare (prepareValue name) (prepareValue address)
                      (prepareValue phone) (prepareValue email) id' s of
             Inl err \<Rightarrow> (reply_json 500 (Failed err), s)
           | Inr (result, s1) \<Rightarrow>
               if rowCount result = 0
               then (reply_json 404 (Message ''not_found'' ''Daycare not found''), s1)
               else (reply_json 200
                       (Updated ''success'' ''Daycare updated successfully''
                          (map_option Daycare (first_row (rows result)))), s1)))"

subsection \<open>Classroom\<close>

definition get_classrooms :: "db \<Rightarrow> response \<times> db" where
  "get_classrooms s =
     (case and_then (query_count (classroom s)) (\<lambda>cnt.
           and_then (query_all cl_id (classroom s)) (\<lambda>data. Inr (cnt, data))) of
        Inl err \<Rightarrow> (reply_json 500 (Failed err), s)
      | Inr (cnt, data) \<Rightarrow>
          (reply_json 200 (Listing ''classrooms_count'' (json_number (parseInt cnt))
             (map Classroom (rows data))), s))"

definition get_classroom :: "string \<Rightarrow> db \<Rightarrow> response \<times> db" where
  "get_classroom id' s =
     (case query_by_id cl_id (classroom s) id' of
        Inl err \<Rightarrow> (reply_json 500 (Failed err), s)
      | Inr result \<Rightarrow>
          if length (rows result) = 0
          then (reply_json 404 (Message ''not_found'' ''Classroom not found''), s)
          else (reply_json 200 (Found (map Classroom (rows result))), s))"

definition delete_classroom :: "string \<Rightarrow> db \<Rightarrow> response \<times> db" where
  "delete_classroom id' s =
     (case query_delete_classroom id' s of
        Inl err \<Rightarrow> (reply_json 500 (Failed err), s)
      | Inr (result, s1) \<Rightarrow>
          if rowCount result = 0
          then (reply_json 404 (Message ''not_found'' ''Classroom not found''), s1)
          else (reply_json 200 (Message ''success'' ''Classroom deleted successfully''), s1))"

definition update_classroom :: "string \<Rightarrow> body \<Rightarrow> db \<Rightarrow> response \<times> db" where
  "update_classroom id' b s =
     (let name = b ''name''; daycare_id = b ''daycare_id''
      in if \<not> truthy name \<or> \<not> truthy daycare_id
         then (reply_json 400 (Message ''error'' ''Both name and daycare_id are required''), s)
         else (case query_update_classroom (prepareValue name) (prepareValue daycare_id) id' s of
             Inl err \<Rightarrow> (reply_json 500 (Failed err), s)
           | Inr (result, s1) \<Rightarrow>
               if rowCount result = 0
               then (reply_json 404 (Message ''not_found'' ''Classroom not found''), s1)
               else (reply_json 200
                       (Updated ''success'' ''Classroom updated successfully''
                          (map_option Classroom (first_row (rows result)))), s1)))"

subsection \<open>Enrollment\<close>

text \<open>
  The list handler passes the count on as the driver delivers it, without \<open>parseInt\<close>.
  The three handlers that take an id write it into the statement text.
\<close>

definition get_enrollments :: "db \<Rightarrow> response \<times> db" where
  "get_enrollments s =
     (case and_then (query_count (enrollment s)) (\<lambda>cnt.
           and_then (query_all en_id (enrollment s)) (\<lambda>data. Inr (cnt, data))) of
        Inl err \<Rightarrow> (reply_json 500 (Failed err), s)
      | Inr (cnt, data) \<Rightarrow>
          (reply_json 200 (Listing ''enrollments_count'' (JStr cnt)
             (map Enrollment (rows data))), s))"

definition get_enrollment :: "string \<Rightarrow> db \<Rightarrow> response \<times> db" where
  "get_enrollment id' s =
     (case query_text (''SELECT * FROM public.enrollment WHERE public.enrollment.id='' @ id'
                        @ '' ORDER BY id ASC'') s of
        Inl err \<Rightarrow> (reply_json 500 (Failed err), s)
      | Inr (Several results, s1) \<Rightarrow> (reply_json 500 (Failed TypeError), s1)
      | Inr (Single result, s1) \<Rightarrow>
          if length (rows result) = 0
          then (reply_json 404 (Message ''not_found'' ''Enrollment not found''), s1)
          else (reply_json 200 (Found (map Enrollment (rows result))), s1))"

definition delete_enrollment :: "string \<Rightarrow> db \<Rightarrow> response \<times> db" where
  "delete_enrollment id' s =
     (case query_text (''DELETE FROM public.enrollment WHERE public.enrollment.id='' @ id') s of
        Inl err \<Rightarrow> (reply_json 500 (Failed err), s)
      | Inr (result, s1) \<Rightarrow>
          (reply_json 200 (Message ''success'' ''Enrollment deleted successfully''), s1))"

definition update_enrollment :: "string \<Rightarrow> body \<Rightarrow> db \<Rightarrow> response \<times> db" where
  "update_enrollment id' b s =
     (let child_id = b ''child_id''; parent_id = b ''parent_id''
      in if \<not> truthy child_id \<or> \<not> truthy parent_id
         then (reply_json 400 (Message ''error'' ''Both child_id and parent_id are required''), s)
         else (case query_text
                      (''UPDATE public.enrollment'' @ [CHR 0x0A]
                       @ ''       SET child_id = '' @ template child_id
                       @ '', parent_id = '' @ template parent_id @ [CHR 0x0A]
                       @ ''       WHERE id = '' @ id' @ [CHR 0x0A]
                       @ ''       RETURNING *'') s of
             Inl err \<Rightarrow> (reply_json 500 (Failed err), s)
           | Inr (Several results, s1) \<Rightarrow> (reply_json 500 (Failed TypeError), s1)
           | Inr (Single result, s1) \<Rightarrow>
               (reply_json 200
                  (Updated ''success'' ''Enrollment updated successfully''
                     (map_option Enrollment (first_row (rows result)))), s1)))"

subsection \<open>Child\<close>

definition get_children :: "db \<Rightarrow> response \<times> db" where
  "get_children s =
     (case and_then (query_count (child s)) (\<lambda>cnt.
           and_then (query_all ch_id (child s)) (\<lambda>data. Inr (cnt, data))) of
        Inl err \<Rightarrow> (reply_json 500 (Failed err), s)
      | Inr (cnt, data) \<Rightarrow>
          (reply_json 200 (Listing ''children_count'' (json_number (parseInt cnt))
             (map Child (rows data))), s))"

definition get_child :: "string \<Rightarrow> db \<Rightarrow> response \<times> db" where
  "get_child id' s =
     (case query_by_id ch_id (child s) id' of
        Inl err \<Rightarrow> (reply_json 500 (Failed err), s)
      | Inr result \<Rightarrow>
          if length (rows result) = 0
          then (reply_json 404 (Message ''not_found'' ''Child not found''), s)
          else (reply_json 200 (Found (map Child (rows result))), s))"

definition delete_child :: "string \<Rightarrow> db \<Rightarrow> response \<times> db" where
  "delete_child id' s =
     (case query_delete_child id' s of
        Inl err \<Rightarrow> (reply_json 500 (Failed err), s)
      | Inr (result, s1) \<Rightarrow>
          if rowCount result = 0
          then (reply_json 404 (Message ''not_found'' ''Child not found''), s1)
          else (reply_json 200 (Message ''success'' ''Child deleted successfully''), s1))"

definition update_child ::
  "(string \<Rightarrow> date option) \<Rightarrow> string \<Rightarrow> body \<Rightarrow> db \<Rightarrow> response \<times> db" where
  "update_child date_in id' b s =
     (let name = b ''name''; date_of_birth = b ''date_of_birth'';
          classroom_id = b ''classroom_id''; daycare_id = b ''daycare_id''
      in if \<not> truthy name \<or> \<not> truthy date_of_birth \<or> \<not> truthy classroom_id
            \<or> \<not> truthy daycare_id
         then (reply_json 400 (Message ''error'' ''All fields are required''), s)
         else (case query_update_child date_in (prepareValue name) (prepareValue date_of_birth)
                      (prepareValue classroom_id) (prepareValue daycare_id) id' s of
             Inl err \<Rightarrow> (reply_json 500 (Failed err), s)
           | Inr (result, s1) \<Rightarrow>
               if rowCount result = 0
               then (reply_json 404 (Message ''not_found'' ''Child not found''), s1)
               else (reply_json 200
                       (Updated ''success'' ''Child updated successfully''
                          (map_option Child (first_row (rows result)))), s1)))"

subsection \<open>Parent\<close>

definition get_parents :: "db \<Rightarrow> response \<times> db" where
  "get_parents s =
     (case and_then (query_count (parent s)) (\<lambda>cnt.
           and_then (query_all pa_id (parent s)) (\<lambda>data. Inr (cnt, data))) of
        Inl err \<Rightarrow> (reply_json 500 (Failed err), s)
      | Inr (cnt, data) \<Rightarrow>
          (reply_json 200 (Listing ''parents_count'' (json_number (parseInt cnt))
             (map Parent (rows data))), s))"

definition get_parent :: "string \<Rightarrow> db \<Rightarrow> response \<times> db" where
  "get_parent id' s =
     (case query_by_id pa_id (parent s) id' of
        Inl err \<Rightarrow> (reply_json 500 (Failed err), s)
      | Inr result \<Rightarrow>
          if length (rows result) = 0
          then (reply_json 404 (Message ''not_found'' ''Parent not found''), s)
          else (reply_json 200 (Found (map Parent (rows result))), s))"

definition delete_parent :: "string \<Rightarrow> db \<Rightarrow> response \<times> db" where
  "delete_parent id' s =
     (case query_delete_parent id' s of
        Inl err \<Rightarrow> (reply_json 500 (Failed err), s)
      | Inr (result, s1) \<Rightarrow>
          if rowCount result = 0
          then (reply_json 404 (Message ''not_found'' ''Parent not found''), s1)
          else (reply_json 200 (Message ''success'' ''Parent deleted successfully''), s1))"

definition update_parent :: "string \<Rightarrow> body \<Rightarrow> db \<Rightarrow> response \<times> db" where
  "update_parent id' b s =
     (let name = b ''name''; phone = b ''phone''; email = b ''email''
      in if \<not> truthy name \<or> \<not> truthy phone \<or> \<not> truthy email
         then (reply_json 400 (Message ''error'' ''All fields are required''), s)
         else (case query_update_parent (prepareValue name) (prepareValue phone)
                      (prepareValue email) id' s of
             Inl err \<Rightarrow> (reply_json 500 (Failed err), s)
           | Inr (result, s1) \<Rightarrow>
               if rowCount result = 0
               then (reply_json 404 (Message ''not_found'' ''Parent not found''), s1)
               else (reply_json 200
                       (Updated ''success'' ''Parent updated successfully''
                          (map_option Parent (first_row (rows result)))), s1)))"

section \<open>The application\<close>

text \<open>
  A request: the method, the path of the URL without the query, the JSON body, and the
  time in nanoseconds that will have passed between the two clock readings of the
  metrics middleware. The body is the object that \<open>express.json()\<close> parses it to, or
  \<open>None\<close> when it is not JSON and the parser rejects it. A request without a body is taken
  as one with the empty object; only the update handlers read the body.
\<close>

record request =
  req_method :: string
  req_path :: string
  req_body :: "body option"
  elapsed :: nat

text \<open>The state of the process and its database.\<close>

record state =
  stored :: db
  metrics :: histogram

text \<open>
  What the model takes from outside: the engine's reading of a date, and the
  documentation pages mounted under \<open>/api\<close>, which answer a request with a status code
  and leave the request with some path when the response is finished.
\<close>

record env =
  date_in :: "string \<Rightarrow> date option"
  docs :: "request \<Rightarrow> nat \<times> string"

subsection \<open>Routing\<close>

text \<open>
  The framework matches a path against a route pattern segment by segment, without
  regard to case and allowing one slash at the end (its default settings, which the
  application does not change). A segment \<open>:id\<close> of the pattern takes one segment of the
  path that is not empty.
\<close>

fun split_slash :: "string \<Rightarrow> string \<Rightarrow> string list" where
  "split_slash cur [] = [cur]"
| "split_slash cur (c # s) =
     (if c = CHR ''/'' then cur # split_slash [] s else split_slash (cur @ [c]) s)"

fun match_segments :: "string list \<Rightarrow> string list \<Rightarrow> string list option" where
  "match_segments [] [] = Some []"
| "match_segments (p # ps) (x # xs) =
     (if take 1 p = '':''
      then (if x = [] then None else map_option ((#) x) (match_segments ps xs))
      else if map lower p = map lower x then match_segments ps xs else None)"
| "match_segments _ _ = None"

definition match_path :: "string \<Rightarrow> string \<Rightarrow> string list option" where
  "match_path pattern path =
     (let xs = split_slash [] path;
          ys = (if 2 < length xs \<and> last xs = [] then butlast xs else xs)
      in match_segments (split_slash [] pattern) ys)"

text \<open>
  A path parameter is decoded before the handler reads it. The model decodes the
  escapes of ASCII characters; an escape that is cut short, is not hexadecimal or is
  beyond ASCII counts as one that cannot be decoded.
\<close>

definition hex_val :: "char \<Rightarrow> nat option" where
  "hex_val c =
     map_of (zip ''0123456789abcdef'' [0, 1, 2, 3, 4, 5, 6, 7, 8, 9, 10, 11, 12, 13, 14, 15]) (lower c)"

definition ascii_char :: "nat \<Rightarrow> nat \<Rightarrow> char" where
  \<comment> \<open>the character with the code \<open>16 * a + b\<close>, for \<open>a < 8\<close> and \<open>b < 16\<close>, by its bits\<close>
  "ascii_char a b =
     Char (odd b) (odd (b div 2)) (odd (b div 4)) (odd (b div 8))
          (odd a) (odd (a div 2)) (odd (a div 4)) False"

fun decode :: "string \<Rightarrow> string option" where
  "decode [] = Some []"
| "decode (c # s) =
     (if c = CHR ''%''
      then (case s of
          h # l # r \<Rightarrow>
            (case (hex_val h, hex_val l) of
               (Some a, Some b) \<Rightarrow>
                 if a < 8 then map_option ((#) (ascii_char a b)) (decode r) else None
             | _ \<Rightarrow> None)
        | _ \<Rightarrow> None)
      else map_option ((#) c) (decode s))"

text \<open>The routes, in the order in which the application registers them.\<close>

datatype endpoint =
    Scrape | HealthCheck
  | GetDaycares | GetDaycare | DeleteDaycare | UpdateDaycare
  | GetClassrooms | GetClassroom | DeleteClassroom | UpdateClassroom
  | GetEnrollments | GetEnrollment | DeleteEnrollment | UpdateEnrollment
  | GetChildren | GetChild | DeleteChild | UpdateChild
  | GetParents | GetParent | DeleteParent | UpdateParent

datatype layer = Route string string endpoint | Mount string

definition layers :: "layer list" where
  "layers = [
     Route ''GET'' ''/metrics'' Scrape,
     Route ''GET'' ''/api/metrics'' Scrape,
     Route ''GET'' ''/health'' HealthCheck,
     Mount ''/api'',
     Route ''GET'' ''/get_daycares'' GetDaycares,
     Route ''GET'' ''/get_daycare/:id'' GetDaycare,
     Route ''DELETE'' ''/delete_daycare/:id'' DeleteDaycare,
     Route ''PUT'' ''/update_daycare/:id'' UpdateDaycare,
     Route ''GET'' ''/get_classrooms'' GetClassrooms,
     Route ''GET'' ''/get_classroom/:id'' GetClassroom,
     Route ''DELETE'' ''/delete_classroom/:id'' DeleteClassroom,
     Route ''PUT'' ''/update_classroom/:id'' UpdateClassroom,
     Route ''GET'' ''/get_enrollments'' GetEnrollments,
     Route ''GET'' ''/get_enrollment/:id'' GetEnrollment,
     Route ''DELETE'' ''/delete_enrollment/:id'' DeleteEnrollment,
     Route ''PUT'' ''/update_enrollment/:id'' UpdateEnrollment,
     Route ''GET'' ''/get_children'' GetChildren,
     Route ''GET'' ''/get_child/:id'' GetChild,
     Route ''DELETE'' ''/delete_child/:id'' DeleteChild,
     Route ''PUT'' ''/update_child/:id'' UpdateChild,
     Route ''GET'' ''/get_parents'' GetParents,
     Route ''GET'' ''/get_parent/:id'' GetParent,
     Route ''DELETE'' ''/delete_parent/:id'' DeleteParent,
     Route ''PUT'' ''/update_parent/:id'' UpdateParent]"

text \<open>A route registered for \<open>GET\<close> also serves \<open>HEAD\<close>.\<close>

definition serves :: "string \<Rightarrow> string \<Rightarrow> bool" where
  "serves m method = (method = m \<or> (m = ''GET'' \<and> method = ''HEAD''))"

text \<open>A mounted path matches a path that it starts, up to a slash or the end.\<close>

definition under :: "string \<Rightarrow> string \<Rightarrow> bool" where
  "under prefix path =
     (map lower (take (length prefix) path) = map lower prefix
      \<and> (drop (length prefix) path = [] \<or> take 1 (drop (length prefix) path) = ''/''))"

datatype target =
    Handler string endpoint "string list"
    \<comment> \<open>the pattern of the route, its endpoint and the path parameters, not yet decoded\<close>
  | Mounted
  | Options
  | Nothing

text \<open>
  The first layer that takes the request decides. \<open>seen\<close> records that a route matched
  the path but not the method, which the framework answers itself when the method is
  \<open>OPTIONS\<close> and no later layer takes the request.
\<close>

fun dispatch :: "layer list \<Rightarrow> bool \<Rightarrow> string \<Rightarrow> string \<Rightarrow> target" where
  "dispatch [] seen method path = (if seen \<and> method = ''OPTIONS'' then Options else Nothing)"
| "dispatch (Mount prefix # ls) seen method path =
     (if under prefix path then Mounted else dispatch ls seen method path)"
| "dispatch (Route m pattern e # ls) seen method path =
     (case match_path pattern path of
        None \<Rightarrow> dispatch ls seen method path
      | Some ps \<Rightarrow>
          if serves m method then Handler pattern e ps else dispatch ls True method path)"

subsection \<open>Running a handler\<close>

definition scrape :: "state \<Rightarrow> response \<times> state" where
  "scrape st = (reply_json 200 (Exposition (exposition (metrics st))), st)"

definition on_db :: "(db \<Rightarrow> response \<times> db) \<Rightarrow> state \<Rightarrow> response \<times> state" where
  "on_db h st = (let (res, s1) = h (stored st) in (res, st\<lparr>stored := s1\<rparr>))"

fun run :: "env \<Rightarrow> endpoint \<Rightarrow> string \<Rightarrow> body \<Rightarrow> state \<Rightarrow> response \<times> state" where
  "run e Scrape i b st = scrape st"
| "run e HealthCheck i b st = on_db health st"
| "run e GetDaycares i b st = on_db get_daycares st"
| "run e GetDaycare i b st = on_db (get_daycare i) st"
| "run e DeleteDaycare i b st = on_db (delete_daycare i) st"
| "run e UpdateDaycare i b st = on_db (update_daycare i b) st"
| "run e GetClassrooms i b st = on_db get_classrooms st"
| "run e GetClassroom i b st = on_db (get_classroom i) st"
| "run e DeleteClassroom i b st = on_db (delete_classroom i) st"
| "run e UpdateClassroom i b st = on_db (update_classroom i b) st"
| "run e GetEnrollments i b st = on_db get_enrollments st"
| "run e GetEnrollment i b st = on_db (get_enrollment i) st"
| "run e DeleteEnrollment i b st = on_db (delete_enrollment i) st"
| "run e UpdateEnrollment i b st = on_db (update_enrollment i b) st"
| "run e GetChildren i b st = on_db get_children st"
| "run e GetChild i b st = on_db (get_child i) st"
| "run e DeleteChild i b st = on_db (delete_child i) st"
| "run e UpdateChild i b st = on_db (update_child (date_in e) i b) st"
| "run e GetParents i b st = on_db get_parents st"
| "run e GetParent i b st = on_db (get_parent i) st"
| "run e DeleteParent i b st = on_db (delete_parent i) st"
| "run e UpdateParent i b st = on_db (update_parent i b) st"

text \<open>
  The part of the application behind the metrics middleware, for a request with the
  parsed body \<open>b\<close>. Besides the response and the next state it gives what the middleware
  reads from the request when the response is finished: \<open>req.route.path\<close> if a route
  handled the request, and \<open>req.path\<close>.
\<close>

definition router ::
  "env \<Rightarrow> body \<Rightarrow> request \<Rightarrow> state \<Rightarrow> (response \<times> string option \<times> string) \<times> state" where
  "router e b req st =
     (case dispatch layers False (req_method req) (req_path req) of
        Handler pattern ep ps \<Rightarrow>
          (case those (map decode ps) of
             None \<Rightarrow> ((reply_json 400 BadParam, None, req_path req), st)
           | Some ds \<Rightarrow>
               (let (res, st1) = run e ep (concat (take 1 ds)) b st
                in ((res, Some pattern, req_path req), st1)))
      | Mounted \<Rightarrow> ((reply_json (fst (docs e req)) Document, None, snd (docs e req)), st)
      | Options \<Rightarrow> ((reply_json 200 Allow, None, req_path req), st)
      | Nothing \<Rightarrow> ((reply_json 404 NoRoute, None, req_path req), st))"

subsection \<open>The metrics middleware\<close>

text \<open>
  \<open>metricsMiddleware(skipPaths)\<close>: a request whose path is one of \<open>skipPaths\<close> goes on
  untimed. For every other request the finished response is observed, labelled with the
  method, with the pattern of the route (or the path, or \<open>unknown\<close>) and with the status
  code.
\<close>

definition route_label :: "string option \<Rightarrow> string \<Rightarrow> string" where
  \<comment> \<open>\<open>(req.route && req.route.path) || req.path || 'unknown'\<close>\<close>
  "route_label r p =
     (case r of
        Some pattern \<Rightarrow> if pattern \<noteq> [] then pattern else if p \<noteq> [] then p else ''unknown''
      | None \<Rightarrow> if p \<noteq> [] then p else ''unknown'')"

definition metricsMiddleware ::
  "string list \<Rightarrow> (request \<Rightarrow> state \<Rightarrow> (response \<times> string option \<times> string) \<times> state)
     \<Rightarrow> request \<Rightarrow> state \<Rightarrow> response \<times> state" where
  "metricsMiddleware skipPaths next req st =
     (if req_path req \<in> set skipPaths then (let ((res, r, p), st1) = next req st in (res, st1))
      else (let ((res, r, p), st1) = next req st;
                dur = of_nat (elapsed req) / 1000000000;
                route = route_label r p
            in (res, st1\<lparr>metrics :=
                  observe [req_method req, route, js_number (int (code res))] dur (metrics st1)\<rparr>)))"

text \<open>
  The application, in the order of its \<open>app.use\<close> calls: \<open>express.json()\<close> first, which
  answers a body that is not JSON with 400 itself, so that such a request reaches neither
  the metrics middleware nor a route; then \<open>setupMetrics\<close> with the default
  \<open>skipPaths\<close>; then the routes.
\<close>

definition app :: "env \<Rightarrow> request \<Rightarrow> state \<Rightarrow> response \<times> state" where
  "app e req st =
     (case req_body req of
        None \<Rightarrow> (reply_json 400 BadBody, st)
      | Some b \<Rightarrow> metricsMiddleware [''/metrics'', ''/api/metrics''] (router e b) req st)"

text \<open>The state after a sequence of requests, handled one after the other.\<close>

fun serve :: "env \<Rightarrow> request list \<Rightarrow> state \<Rightarrow> state" where
  "serve e [] st = st"
| "serve e (req # reqs) st = serve e reqs (snd (app e req st))"

text \<open>The state in which the process starts on the seeded database.\<close>

definition start :: state where
  "start = \<lparr>stored = seed, metrics = httpDuration\<rparr>"

text \<open>
  An environment for the examples: the engine reads one date, and the documentation
  pages answer every request with 200 and leave its path as it was.
\<close>

definition example_env :: env where
  "example_env = \<lparr>
     date_in = (\<lambda>t. if t = ''2020-05-12'' then Some (2020, 5, 12) else None),
     docs = (\<lambda>req. (200, req_path req))\<rparr>"

definition example_body :: body where
  "example_body = [
     ''name'' \<mapsto> JStr ''Sunny Days'', ''address'' \<mapsto> JStr ''1 Main Street'',
     ''phone'' \<mapsto> JStr ''555-000-1111'', ''email'' \<mapsto> JStr ''hello@sunnydays.example'',
     ''date_of_birth'' \<mapsto> JStr ''2020-05-12'', ''classroom_id'' \<mapsto> JNum 3,
     ''daycare_id'' \<mapsto> JNum 2, ''child_id'' \<mapsto> JNum 3, ''parent_id'' \<mapsto> JNum 4]"

definition example_request :: "string \<Rightarrow> string \<Rightarrow> request" where
  "example_request m p =
     \<lparr>req_method = m, req_path = p, req_body = Some Map.empty, elapsed = 3000000\<rparr>"

section \<open>Reading the responses\<close>

text \<open>The rows of a list response, the samples of a scrape, and the key of a row.\<close>

definition listed :: "response \<Rightarrow> row list" where
  "listed res = (case content res of Listing k c d \<Rightarrow> d | _ \<Rightarrow> [])"

definition scraped :: "response \<Rightarrow> sample list" where
  "scraped res = (case content res of Exposition ss \<Rightarrow> ss | _ \<Rightarrow> [])"

fun row_id :: "row \<Rightarrow> int" where
  "row_id (Daycare r) = dc_id r"
| "row_id (Classroom r) = cl_id r"
| "row_id (Parent r) = pa_id r"
| "row_id (Child r) = ch_id r"
| "row_id (Enrollment r) = en_id r"

section \<open>Decimal notation\<close>

lemma below_ten:
  "(d::nat) < 10 \<Longrightarrow>
     d = 0 \<or> d = 1 \<or> d = 2 \<or> d = 3 \<or> d = 4 \<or> d = 5 \<or> d = 6 \<or> d = 7 \<or> d = 8 \<or> d = 9"
  by arith

lemma digit_val_char: "d < 10 \<Longrightarrow> digit_val (digit_char d) = d"
  using below_ten [of d] by (auto simp: digit_val_def digit_char_def)

lemma is_digit_char: "d < 10 \<Longrightarrow> is_digit (digit_char d)"
  using below_ten [of d] by (auto simp: is_digit_def digit_char_def)

lemma nat_of_digits_snoc: "nat_of_digits (s @ [c]) = 10 * nat_of_digits s + digit_val c"
  by (simp add: nat_of_digits_def)

lemma nat_of_digits_digits: "nat_of_digits (digits n) = n"
proof (induction n rule: digits.induct)
  case (1 n)
  show ?case
  proof (cases "n < 10")
    case True
    then show ?thesis by (simp add: digits.simps nat_of_digits_def digit_val_char)
  next
    case False
    then have "nat_of_digits (digits n)
        = 10 * nat_of_digits (digits (n div 10)) + digit_val (digit_char (n mod 10))"
      by (subst digits.simps) (simp add: nat_of_digits_snoc)
    also have "\<dots> = 10 * (n div 10) + n mod 10"
      using 1 False by (simp add: digit_val_char)
    finally show ?thesis by simp
  qed
qed

lemma digits_all_digit: "list_all is_digit (digits n)"
proof (induction n rule: digits.induct)
  case (1 n)
  show ?case
  proof (cases "n < 10")
    case True
    then show ?thesis by (simp add: digits.simps is_digit_char)
  next
    case False
    with 1 show ?thesis by (subst digits.simps) (simp add: is_digit_char)
  qed
qed

lemma digits_not_empty: "digits n \<noteq> []"
  by (subst digits.simps) simp

lemma is_digit_not_space: "is_digit c \<Longrightarrow> \<not> is_space c"
  by (auto simp: is_digit_def is_space_def)

lemma is_digit_not_sign: "is_digit c \<Longrightarrow> c \<noteq> CHR ''-'' \<and> c \<noteq> CHR ''+''"
  by (auto simp: is_digit_def)

lemma takeWhile_all: "list_all P xs \<Longrightarrow> takeWhile P xs = xs"
  by (induction xs) auto


lemma digits_head:
  obtains c cs where "digits n = c # cs" and "is_digit c"
  using digits_not_empty [of n] digits_all_digit [of n] by (cases "digits n") auto

lemma takeWhile_digits: "takeWhile is_digit (digits n) = digits n"
  by (rule takeWhile_all) (rule digits_all_digit)


lemma digits_no_space: "dropWhile is_space (digits n) = digits n"
proof -
  obtain c cs where "digits n = c # cs" and "is_digit c"
    by (rule digits_head)
  then show ?thesis by (simp add: is_digit_not_space)
qed

lemma digits_no_sign: "take 1 (digits n) \<noteq> ''-'' \<and> take 1 (digits n) \<noteq> ''+''"
proof -
  obtain c cs where "digits n = c # cs" and "is_digit c"
    by (rule digits_head)
  then show ?thesis by (auto simp: is_digit_not_sign)
qed

text \<open>\<open>parseInt\<close> reads the text of a count back as the number counted.\<close>

lemma parseInt_digits: "parseInt (digits n) = Some (int n)"
  by (simp add: parseInt_def Let_def digits_no_space digits_no_sign takeWhile_digits
      digits_not_empty nat_of_digits_digits del: One_nat_def)

section \<open>The list endpoints\<close>

lemma get_daycares_eq:
  "get_daycares s =
     (reply_json 200 (Listing ''daycares_count'' (JNum (int (length (daycare s))))
        (map Daycare (sort_key dc_id (daycare s)))), s)"
  by (simp add: get_daycares_def query_count_def query_all_def and_then_def Let_def
      parseInt_digits json_number_def)

lemma get_classrooms_eq:
  "get_classrooms s =
     (reply_json 200 (Listing ''classrooms_count'' (JNum (int (length (classroom s))))
        (map Classroom (sort_key cl_id (classroom s)))), s)"
  by (simp add: get_classrooms_def query_count_def query_all_def and_then_def Let_def
      parseInt_digits json_number_def)

lemma get_parents_eq:
  "get_parents s =
     (reply_json 200 (Listing ''parents_count'' (JNum (int (length (parent s))))
        (map Parent (sort_key pa_id (parent s)))), s)"
  by (simp add: get_parents_def query_count_def query_all_def and_then_def Let_def
      parseInt_digits json_number_def)

lemma get_children_eq:
  "get_children s =
     (reply_json 200 (Listing ''children_count'' (JNum (int (length (child s))))
        (map Child (sort_key ch_id (child s)))), s)"
  by (simp add: get_children_def query_count_def query_all_def and_then_def Let_def
      parseInt_digits json_number_def)

lemma get_enrollments_eq:
  "get_enrollments s =
     (reply_json 200 (Listing ''enrollments_count'' (JStr (digits (length (enrollment s))))
        (map Enrollment (sort_key en_id (enrollment s)))), s)"
  by (simp add: get_enrollments_def query_count_def query_all_def and_then_def Let_def)

lemma listed_reply [simp]: "listed (reply_json c (Listing k n d)) = d"
  by (simp add: listed_def reply_json_def)

lemma code_reply [simp]: "code (reply_json c p) = c"
  by (simp add: reply_json_def)

lemma content_reply [simp]: "content (reply_json c p) = p"
  by (simp add: reply_json_def)

lemma row_id_o:
  "row_id \<circ> Daycare = dc_id" "row_id \<circ> Classroom = cl_id" "row_id \<circ> Parent = pa_id"
  "row_id \<circ> Child = ch_id" "row_id \<circ> Enrollment = en_id"
  by (rule ext, simp)+

text \<open>
  C8. Every list endpoint answers with all rows of its table and nothing else (the same
  rows with the same multiplicities, so nothing is cut off or paged), in ascending
  order of id.
\<close>

theorem list_all_rows_sorted:
  "listed (fst (get_daycares s)) = map Daycare (sort_key dc_id (daycare s))
   \<and> listed (fst (get_classrooms s)) = map Classroom (sort_key cl_id (classroom s))
   \<and> listed (fst (get_parents s)) = map Parent (sort_key pa_id (parent s))
   \<and> listed (fst (get_children s)) = map Child (sort_key ch_id (child s))
   \<and> listed (fst (get_enrollments s)) = map Enrollment (sort_key en_id (enrollment s))
   \<and> mset (listed (fst (get_daycares s))) = mset (map Daycare (daycare s))
   \<and> mset (listed (fst (get_classrooms s))) = mset (map Classroom (classroom s))
   \<and> mset (listed (fst (get_parents s))) = mset (map Parent (parent s))
   \<and> mset (listed (fst (get_children s))) = mset (map Child (child s))
   \<and> mset (listed (fst (get_enrollments s))) = mset (map Enrollment (enrollment s))
   \<and> sorted (map row_id (listed (fst (get_daycares s))))
   \<and> sorted (map row_id (listed (fst (get_classrooms s))))
   \<and> sorted (map row_id (listed (fst (get_parents s))))
   \<and> sorted (map row_id (listed (fst (get_children s))))
   \<and> sorted (map row_id (listed (fst (get_enrollments s))))"
  by (simp add: get_daycares_eq get_classrooms_eq get_parents_eq get_children_eq
      get_enrollments_eq row_id_o)

section \<open>The histogram's configuration\<close>

lemma observe_config:
  "buckets (observe l v h) = buckets h \<and> labelNames (observe l v h) = labelNames h
   \<and> hist_name (observe l v h) = hist_name h"
  by (simp add: observe_def)


lemma on_db_metrics: "metrics (snd (on_db h st)) = metrics st"
  by (simp add: on_db_def split: prod.splits)

lemma run_metrics: "metrics (snd (run e ep i b st)) = metrics st"
  by (cases ep) (simp_all add: on_db_metrics scrape_def)

lemma router_metrics: "metrics (snd (router e b req st)) = metrics st"
  by (simp add: router_def run_metrics split: target.splits option.splits prod.splits)
    (metis run_metrics snd_conv)

lemma router_cases:
  obtains res r p st1 where "router e b req st = ((res, r, p), st1)" and "metrics st1 = metrics st"
proof -
  obtain res r p st1 where eq: "router e b req st = ((res, r, p), st1)"
    by (metis prod_cases3 surj_pair)
  moreover from eq router_metrics [of e b req st] have "metrics st1 = metrics st"
    by simp
  ultimately show ?thesis by (rule that)
qed

text \<open>A body that the parser rejects is answered before the middleware: nothing is observed.\<close>

lemma app_bad_body: "req_body req = None \<Longrightarrow> app e req st = (reply_json 400 BadBody, st)"
  by (simp add: app_def)

lemma app_skipped:
  assumes "req_path req \<in> set [''/metrics'', ''/api/metrics'']"
  shows "metrics (snd (app e req st)) = metrics st"
proof (cases "req_body req")
  case None
  then show ?thesis by (simp add: app_def)
next
  case (Some b)
  obtain res r p st1 where "router e b req st = ((res, r, p), st1)" and "metrics st1 = metrics st"
    by (rule router_cases)
  with assms Some show ?thesis
    by (simp add: app_def metricsMiddleware_def)
qed

lemma app_metrics:
  "metrics (snd (app e req st)) = metrics st
   \<or> (\<exists>l v. metrics (snd (app e req st))
         = observe [req_method req, l, js_number (int (code (fst (app e req st))))] v (metrics st))"
proof (cases "req_body req")
  case None
  then show ?thesis by (simp add: app_def)
next
  case (Some b)
  obtain res r p st1 where eq: "router e b req st = ((res, r, p), st1)"
    and m: "metrics st1 = metrics st"
    by (rule router_cases)
  show ?thesis
  proof (cases "req_path req \<in> set [''/metrics'', ''/api/metrics'']")
    case True
    then show ?thesis by (simp only: app_skipped simp_thms)
  next
    case False
    with Some eq m have "metrics (snd (app e req st))
        = observe [req_method req, route_label r p, js_number (int (code (fst (app e req st))))]
            (of_nat (elapsed req) / 1000000000) (metrics st)"
      by (simp add: app_def metricsMiddleware_def Let_def)
    then show ?thesis by blast
  qed
qed

lemma app_config:
  "buckets (metrics (snd (app e req st))) = buckets (metrics st)
   \<and> labelNames (metrics (snd (app e req st))) = labelNames (metrics st)"
  using app_metrics [of e req st] by (auto simp: observe_config)

lemma app_labelled:
  assumes "list_all (\<lambda>ob. length (fst ob) = 3) (observed (metrics st))"
  shows "list_all (\<lambda>ob. length (fst ob) = 3) (observed (metrics (snd (app e req st))))"
  using app_metrics [of e req st] assms by (auto simp: observe_def)

lemma serve_config:
  "buckets (metrics (serve e reqs st)) = buckets (metrics st)
   \<and> labelNames (metrics (serve e reqs st)) = labelNames (metrics st)"
proof (induction reqs arbitrary: st)
  case Nil
  show ?case by simp
next
  case (Cons req reqs)
  from Cons.IH [of "snd (app e req st)"] app_config [of e req st] show ?case by simp
qed

lemma serve_labelled:
  "list_all (\<lambda>ob. length (fst ob) = 3) (observed (metrics st)) \<Longrightarrow>
   list_all (\<lambda>ob. length (fst ob) = 3) (observed (metrics (serve e reqs st)))"
proof (induction reqs arbitrary: st)
  case Nil
  then show ?case by simp
next
  case (Cons req reqs)
  from Cons.IH [OF app_labelled [OF Cons.prems, of e req]] show ?case by simp
qed

text \<open>
  C7. The request-duration histogram has the bucket bounds 0.005, 0.01, 0.025, 0.05,
  0.1, 0.25, 0.5, 1, 2 and 5 seconds, that is 5, 10, 25, 50, 100, 250, 500, 1000, 2000
  and 5000 milliseconds, and the labels method, route and code. This is its
  configuration when the process starts, no request changes it, and every observation
  carries one value for each of the three labels.
\<close>

theorem histogram_buckets_and_labels:
  "buckets (metrics (serve e reqs start)) = [5 / 1000, 1 / 100, 25 / 1000, 5 / 100, 1 / 10, 25 / 100, 5 / 10, 1, 2, 5]
   \<and> map (\<lambda>b. b * 1000) (buckets (metrics (serve e reqs start)))
       = [5, 10, 25, 50, 100, 250, 500, 1000, 2000, 5000]
   \<and> labelNames (metrics (serve e reqs start)) = [''method'', ''route'', ''code'']
   \<and> list_all (\<lambda>ob. length (fst ob) = length (labelNames httpDuration))
        (observed (metrics (serve e reqs start)))"
proof -
  have "list_all (\<lambda>ob. length (fst ob) = 3) (observed (metrics (serve e reqs start)))"
    by (rule serve_labelled) (simp add: start_def httpDuration_def)
  moreover have "length (labelNames httpDuration) = 3"
    by (simp add: httpDuration_def)
  moreover have "buckets (metrics start) = [5 / 1000, 1 / 100, 25 / 1000, 5 / 100, 1 / 10, 25 / 100, 5 / 10, 1, 2, 5]"
    and "labelNames (metrics start) = [''method'', ''route'', ''code'']"
    by (simp_all add: start_def httpDuration_def)
  ultimately show ?thesis
    by (simp only: serve_config) simp
qed

section \<open>What the middleware observes\<close>

text \<open>
  A request on one of the two paths changes nothing at all: the routes that take it are
  the two scrapes, and otherwise the documentation pages or the framework answer.
\<close>

lemma dispatch_metrics:
  "dispatch layers False m ''/metrics''
     = (if serves ''GET'' m then Handler ''/metrics'' Scrape []
        else if m = ''OPTIONS'' then Options else Nothing)"
  by (simp add: layers_def match_path_def lower_def under_def)

lemma dispatch_api_metrics:
  "dispatch layers False m ''/api/metrics''
     = (if serves ''GET'' m then Handler ''/api/metrics'' Scrape [] else Mounted)"
  by (simp add: layers_def match_path_def lower_def under_def)

lemma router_skipped:
  assumes "req_path req \<in> set [''/metrics'', ''/api/metrics'']"
  shows "snd (router e b req st) = st"
  using assms
  by (auto simp: router_def dispatch_metrics dispatch_api_metrics scrape_def)

lemma app_skipped_state:
  assumes "req_path req \<in> set [''/metrics'', ''/api/metrics'']"
  shows "snd (app e req st) = st"
proof (cases "req_body req")
  case None
  then show ?thesis by (simp add: app_def)
next
  case (Some b)
  obtain res r p st1 where eq: "router e b req st = ((res, r, p), st1)"
    by (metis prod_cases3 surj_pair)
  with router_skipped [OF assms, of e b st] have "st1 = st"
    by simp
  with assms Some eq show ?thesis
    by (simp add: app_def metricsMiddleware_def)
qed

lemma serve_skipped:
  "serve e reqs st
     = serve e (filter (\<lambda>r. req_path r \<notin> set [''/metrics'', ''/api/metrics'']) reqs) st"
proof (induction reqs arbitrary: st)
  case Nil
  show ?case by simp
next
  case (Cons req reqs)
  show ?case
  proof (cases "req_path req \<in> set [''/metrics'', ''/api/metrics'']")
    case True
    with Cons.IH [of st] app_skipped_state [OF True, of e st] show ?thesis by simp
  next
    case False
    with Cons.IH [of "snd (app e req st)"] show ?thesis by simp
  qed
qed

text \<open>
  C6, as amended. A request whose path is exactly \<open>/metrics\<close> or \<open>/api/metrics\<close> is
  never observed: handling it leaves the histogram as it was, and after any sequence of
  requests the histogram, and with it what a scrape shows, is what it would be had the
  requests with these two paths not been made.
\<close>

theorem metrics_paths_not_observed:
  "(req_path req \<in> set [''/metrics'', ''/api/metrics''] \<longrightarrow> metrics (snd (app e req st)) = metrics st)
   \<and> metrics (serve e reqs st)
       = metrics (serve e (filter (\<lambda>r. req_path r \<notin> set [''/metrics'', ''/api/metrics'']) reqs) st)
   \<and> exposition (metrics (serve e reqs st))
       = exposition (metrics (serve e
           (filter (\<lambda>r. req_path r \<notin> set [''/metrics'', ''/api/metrics'']) reqs) st))"
  using app_skipped [of req e st] serve_skipped [of e reqs st] by simp

lemmas app_eval = app_def metricsMiddleware_def router_def layers_def match_path_def lower_def
  serves_def under_def scrape_def on_db_def exposition_def series_def observe_def route_label_def
  example_env_def example_request_def start_def httpDuration_def js_number_def digits.simps
  digit_char_def scraped_def reply_json_def health_def

theorem metrics_paths_not_observed_witness:
  "req_path (example_request ''GET'' ''/metrics'') \<in> set [''/metrics'', ''/api/metrics'']
   \<and> metrics (snd (app example_env (example_request ''GET'' ''/metrics'') start)) = metrics start
   \<and> metrics (serve example_env
         [example_request ''GET'' ''/metrics'', example_request ''GET'' ''/health'',
          example_request ''GET'' ''/api/metrics''] start)
       = metrics (serve example_env [example_request ''GET'' ''/health''] start)"
  using metrics_paths_not_observed [of "example_request ''GET'' ''/metrics''" example_env start
      "[example_request ''GET'' ''/metrics'', example_request ''GET'' ''/health'',
        example_request ''GET'' ''/api/metrics'']"]
  by (simp add: example_request_def)

text \<open>
  The claim as stated also says that no observation is labelled with one of the two
  paths. The label is the pattern of the route that handled the request, and the route
  \<open>/metrics\<close> also handles the path \<open>/metrics/\<close>, which the middleware does not skip:
  after \<open>GET /metrics/\<close> the next scrape shows samples with the route label \<open>/metrics\<close>.
\<close>

theorem trailing_slash_is_observed:
  "req_path (example_request ''GET'' ''/metrics/'') \<notin> set [''/metrics'', ''/api/metrics'']
   \<and> [''GET'', ''/metrics'', ''200''] \<in> set (map sample_labels (scraped (fst
        (app example_env (example_request ''GET'' ''/metrics'')
           (serve example_env [example_request ''GET'' ''/metrics/''] start)))))"
  by (simp add: app_eval)

section \<open>Validation of update bodies\<close>

lemma update_daycare_rejects:
  "\<not> (truthy (b ''name'') \<and> truthy (b ''address'') \<and> truthy (b ''phone'') \<and> truthy (b ''email''))
   \<Longrightarrow> update_daycare i b s
       = (reply_json 400 (Message ''error'' ''All fields (name, address, phone, email) are required''), s)"
  by (auto simp: update_daycare_def Let_def)

lemma update_classroom_rejects:
  "\<not> (truthy (b ''name'') \<and> truthy (b ''daycare_id''))
   \<Longrightarrow> update_classroom i b s
       = (reply_json 400 (Message ''error'' ''Both name and daycare_id are required''), s)"
  by (auto simp: update_classroom_def Let_def)

lemma update_enrollment_rejects:
  "\<not> (truthy (b ''child_id'') \<and> truthy (b ''parent_id''))
   \<Longrightarrow> update_enrollment i b s
       = (reply_json 400 (Message ''error'' ''Both child_id and parent_id are required''), s)"
  by (auto simp: update_enrollment_def Let_def)

lemma update_child_rejects:
  "\<not> (truthy (b ''name'') \<and> truthy (b ''date_of_birth'') \<and> truthy (b ''classroom_id'')
       \<and> truthy (b ''daycare_id''))
   \<Longrightarrow> update_child d i b s = (reply_json 400 (Message ''error'' ''All fields are required''), s)"
  by (auto simp: update_child_def Let_def)

lemma update_parent_rejects:
  "\<not> (truthy (b ''name'') \<and> truthy (b ''phone'') \<and> truthy (b ''email''))
   \<Longrightarrow> update_parent i b s = (reply_json 400 (Message ''error'' ''All fields are required''), s)"
  by (auto simp: update_parent_def Let_def)

lemma falsy_values:
  "\<not> truthy None" "\<not> truthy (Some JNull)" "\<not> truthy (Some (JBool False))"
  "\<not> truthy (Some (JNum 0))" "\<not> truthy (Some (JStr ''''))"
  by simp_all

text \<open>
  C3. An update whose body lacks a required field, or has a falsy value for it
  (\<open>null\<close>, \<open>false\<close>, \<open>0\<close>, the empty string), is answered with 400, whatever the id,
  and the stored state stays as it was. This holds for all five entities.
\<close>

theorem update_rejects_falsy_fields:
  "(\<not> (truthy (b ''name'') \<and> truthy (b ''address'') \<and> truthy (b ''phone'') \<and> truthy (b ''email''))
      \<longrightarrow> code (fst (update_daycare i b s)) = 400 \<and> snd (update_daycare i b s) = s)
   \<and> (\<not> (truthy (b ''name'') \<and> truthy (b ''daycare_id''))
      \<longrightarrow> code (fst (update_classroom i b s)) = 400 \<and> snd (update_classroom i b s) = s)
   \<and> (\<not> (truthy (b ''child_id'') \<and> truthy (b ''parent_id''))
      \<longrightarrow> code (fst (update_enrollment i b s)) = 400 \<and> snd (update_enrollment i b s) = s)
   \<and> (\<not> (truthy (b ''name'') \<and> truthy (b ''date_of_birth'') \<and> truthy (b ''classroom_id'')
          \<and> truthy (b ''daycare_id''))
      \<longrightarrow> code (fst (update_child d i b s)) = 400 \<and> snd (update_child d i b s) = s)
   \<and> (\<not> (truthy (b ''name'') \<and> truthy (b ''phone'') \<and> truthy (b ''email''))
      \<longrightarrow> code (fst (update_parent i b s)) = 400 \<and> snd (update_parent i b s) = s)"
  by (simp add: update_daycare_rejects update_classroom_rejects update_enrollment_rejects
      update_child_rejects update_parent_rejects)

theorem update_rejects_falsy_fields_witness:
  "\<not> truthy ([''name'' \<mapsto> JStr '''', ''address'' \<mapsto> JStr ''1 Main Street'', ''child_id'' \<mapsto> JNum 0,
        ''parent_id'' \<mapsto> JNum 2] ''name'')
   \<and> \<not> truthy ([''name'' \<mapsto> JStr '''', ''address'' \<mapsto> JStr ''1 Main Street'', ''child_id'' \<mapsto> JNum 0,
        ''parent_id'' \<mapsto> JNum 2] ''child_id'')
   \<and> code (fst (update_daycare ''1'' [''name'' \<mapsto> JStr '''', ''address'' \<mapsto> JStr ''1 Main Street'',
        ''child_id'' \<mapsto> JNum 0, ''parent_id'' \<mapsto> JNum 2] seed)) = 400
   \<and> snd (update_daycare ''1'' [''name'' \<mapsto> JStr '''', ''address'' \<mapsto> JStr ''1 Main Street'',
        ''child_id'' \<mapsto> JNum 0, ''parent_id'' \<mapsto> JNum 2] seed) = seed
   \<and> code (fst (update_classroom ''1'' [''name'' \<mapsto> JStr '''', ''address'' \<mapsto> JStr ''1 Main Street'',
        ''child_id'' \<mapsto> JNum 0, ''parent_id'' \<mapsto> JNum 2] seed)) = 400
   \<and> snd (update_enrollment ''1'' [''name'' \<mapsto> JStr '''', ''address'' \<mapsto> JStr ''1 Main Street'',
        ''child_id'' \<mapsto> JNum 0, ''parent_id'' \<mapsto> JNum 2] seed) = seed
   \<and> code (fst (update_enrollment ''1'' [''name'' \<mapsto> JStr '''', ''address'' \<mapsto> JStr ''1 Main Street'',
        ''child_id'' \<mapsto> JNum 0, ''parent_id'' \<mapsto> JNum 2] seed)) = 400
   \<and> code (fst (update_child (date_in example_env) ''1'' [''name'' \<mapsto> JStr '''',
        ''address'' \<mapsto> JStr ''1 Main Street'', ''child_id'' \<mapsto> JNum 0, ''parent_id'' \<mapsto> JNum 2] seed)) = 400
   \<and> code (fst (update_parent ''1'' [''name'' \<mapsto> JStr '''', ''address'' \<mapsto> JStr ''1 Main Street'',
        ''child_id'' \<mapsto> JNum 0, ''parent_id'' \<mapsto> JNum 2] seed)) = 400"
  using update_rejects_falsy_fields [of "[''name'' \<mapsto> JStr '''', ''address'' \<mapsto> JStr ''1 Main Street'',
        ''child_id'' \<mapsto> JNum 0, ''parent_id'' \<mapsto> JNum 2]" "''1''" seed "date_in example_env"]
  by simp

section \<open>The count of a list response\<close>

text \<open>
  For daycare, classroom, parent and child the count in the response is the number of
  rows listed and the number of rows stored.
\<close>

lemma list_counts_rows:
  "content (fst (get_daycares s))
     = Listing ''daycares_count'' (JNum (int (length (listed (fst (get_daycares s))))))
         (listed (fst (get_daycares s)))
   \<and> length (listed (fst (get_daycares s))) = length (daycare s)
   \<and> content (fst (get_classrooms s))
     = Listing ''classrooms_count'' (JNum (int (length (listed (fst (get_classrooms s))))))
         (listed (fst (get_classrooms s)))
   \<and> length (listed (fst (get_classrooms s))) = length (classroom s)
   \<and> content (fst (get_parents s))
     = Listing ''parents_count'' (JNum (int (length (listed (fst (get_parents s))))))
         (listed (fst (get_parents s)))
   \<and> length (listed (fst (get_parents s))) = length (parent s)
   \<and> content (fst (get_children s))
     = Listing ''children_count'' (JNum (int (length (listed (fst (get_children s))))))
         (listed (fst (get_children s)))
   \<and> length (listed (fst (get_children s))) = length (child s)"
  by (simp add: get_daycares_eq get_classrooms_eq get_parents_eq get_children_eq)

text \<open>
  C2. The claim fails for enrollment: the handler passes on the text that the driver
  delivers for the count, so the response holds the string of the decimal notation where
  the other four list handlers hold the number. On the seeded database the count is the
  string \<open>"5"\<close>.
\<close>

theorem enrollments_count_is_text:
  "content (fst (get_enrollments s))
     = Listing ''enrollments_count'' (JStr (digits (length (enrollment s))))
         (map Enrollment (sort_key en_id (enrollment s)))
   \<and> content (fst (get_enrollments seed))
     = Listing ''enrollments_count'' (JStr ''5'') (map Enrollment (enrollment seed))"
  by (simp add: get_enrollments_eq) (simp add: seed_def digits.simps digit_char_def)


section \<open>Deleting and the referential actions\<close>

lemma and_then_Inr [simp]: "and_then (Inr x) f = f x"
  by (simp add: and_then_def)

lemma and_then_Inl [simp]: "and_then (Inl e) f = Inl e"
  by (simp add: and_then_def)

lemma delete_daycare_ok:
  assumes "int4_in i = Inr k"
  shows "delete_daycare i s =
     (if filter (\<lambda>r. dc_id r = k) (daycare s) = []
      then reply_json 404 (Message ''not_found'' ''Daycare not found'')
      else reply_json 200 (Message ''success'' ''Daycare deleted successfully''),
      remove_daycares (\<lambda>r. dc_id r = k) s)"
  using assms by (simp add: delete_daycare_def query_delete_daycare_def)

lemma delete_classroom_ok:
  assumes "int4_in i = Inr k"
  shows "delete_classroom i s =
     (if filter (\<lambda>r. cl_id r = k) (classroom s) = []
      then reply_json 404 (Message ''not_found'' ''Classroom not found'')
      else reply_json 200 (Message ''success'' ''Classroom deleted successfully''),
      remove_classrooms (\<lambda>r. cl_id r = k) s)"
  using assms by (simp add: delete_classroom_def query_delete_classroom_def)

lemma delete_parent_ok:
  assumes "int4_in i = Inr k"
  shows "delete_parent i s =
     (if filter (\<lambda>r. pa_id r = k) (parent s) = []
      then reply_json 404 (Message ''not_found'' ''Parent not found'')
      else reply_json 200 (Message ''success'' ''Parent deleted successfully''),
      remove_parents (\<lambda>r. pa_id r = k) s)"
  using assms by (simp add: delete_parent_def query_delete_parent_def)

lemma delete_child_ok:
  assumes "int4_in i = Inr k"
  shows "delete_child i s =
     (if filter (\<lambda>r. ch_id r = k) (child s) = []
      then reply_json 404 (Message ''not_found'' ''Child not found'')
      else reply_json 200 (Message ''success'' ''Child deleted successfully''),
      remove_children (\<lambda>r. ch_id r = k) s)"
  using assms by (simp add: delete_child_def query_delete_child_def)

text \<open>The keys of the rows with key \<open>k\<close>: \<open>k\<close> alone if there is such a row.\<close>

lemma keys_set:
  "filter (\<lambda>r. key r = k) t \<noteq> [] \<Longrightarrow> set (map Some (map key (filter (\<lambda>r. key r = k) t))) = {Some k}"
  by (induction t) (auto split: if_splits)

lemma keys_of_matching:
  assumes "filter (\<lambda>r. key r = k) t \<noteq> []"
  shows "(v \<in> set (map Some (map key (filter (\<lambda>r. key r = k) t)))) = (v = Some k)"
  by (simp only: keys_set [OF assms] singleton_iff)

lemma remove_daycares_eq:
  assumes "filter (\<lambda>r. dc_id r = k) (daycare s) \<noteq> []"
  shows "remove_daycares (\<lambda>r. dc_id r = k) s
     = remove_children (\<lambda>c. ch_daycare_id c = Some k)
         (remove_classrooms (\<lambda>c. cl_daycare_id c = Some k)
            (s\<lparr>daycare := filter (\<lambda>d. dc_id d \<noteq> k) (daycare s)\<rparr>))"
  unfolding remove_daycares_def Let_def
  by (simp only: keys_of_matching [OF assms])

lemma remove_classrooms_eq:
  assumes "filter (\<lambda>r. cl_id r = k) (classroom s) \<noteq> []"
  shows "remove_classrooms (\<lambda>r. cl_id r = k) s
     = s\<lparr>classroom := filter (\<lambda>c. cl_id c \<noteq> k) (classroom s),
          child := map (\<lambda>c. if ch_classroom_id c = Some k then c\<lparr>ch_classroom_id := None\<rparr> else c)
                     (child s)\<rparr>"
  unfolding remove_classrooms_def Let_def
  by (simp only: keys_of_matching [OF assms])

lemma classroom_remove_children: "classroom (remove_children P s) = classroom s"
  by (simp add: remove_children_def Let_def)

lemma child_remove_children: "child (remove_children P s) = filter (\<lambda>c. \<not> P c) (child s)"
  by (simp add: remove_children_def Let_def)

lemma classroom_remove_classrooms:
  "classroom (remove_classrooms P s) = filter (\<lambda>c. \<not> P c) (classroom s)"
  by (simp add: remove_classrooms_def Let_def)

lemma remove_daycares_classroom:
  assumes "filter (\<lambda>r. dc_id r = k) (daycare s) \<noteq> []"
  shows "classroom (remove_daycares (\<lambda>r. dc_id r = k) s)
           = filter (\<lambda>c. cl_daycare_id c \<noteq> Some k) (classroom s)"
  by (simp add: remove_daycares_eq [OF assms] classroom_remove_children
      classroom_remove_classrooms)

lemma remove_daycares_child:
  assumes "filter (\<lambda>r. dc_id r = k) (daycare s) \<noteq> []"
  shows "list_all (\<lambda>c. ch_daycare_id c \<noteq> Some k) (child (remove_daycares (\<lambda>r. dc_id r = k) s))"
  by (simp add: remove_daycares_eq [OF assms] child_remove_children list_all_iff)

lemma remove_classrooms_child:
  assumes "filter (\<lambda>r. cl_id r = k) (classroom s) \<noteq> []"
  shows "child (remove_classrooms (\<lambda>r. cl_id r = k) s)
           = map (\<lambda>c. if ch_classroom_id c = Some k then c\<lparr>ch_classroom_id := None\<rparr> else c) (child s)"
  by (simp add: remove_classrooms_eq [OF assms])

lemma set_null_ids:
  "map ch_id (map (\<lambda>c. if ch_classroom_id c = Some k then c\<lparr>ch_classroom_id := None\<rparr> else c) t)
     = map ch_id t"
  by (induction t) auto

lemma set_null_all:
  "list_all (\<lambda>c. ch_classroom_id c \<noteq> Some k)
     (map (\<lambda>c. if ch_classroom_id c = Some k then c\<lparr>ch_classroom_id := None\<rparr> else c) t)"
  by (induction t) auto

text \<open>
  C5. After a daycare has been deleted (the handler answered 200), no classroom and no
  child refers to it. After a classroom has been deleted, the child table holds the same
  rows as before, in the same order, except that \<open>classroom_id\<close> is \<open>NULL\<close> in the rows
  that referred to the classroom; so each of those children still exists and no child
  refers to the classroom any more.
\<close>

theorem delete_referential_actions:
  "(int4_in i = Inr k \<and> code (fst (delete_daycare i s)) = 200 \<longrightarrow>
      list_all (\<lambda>c. cl_daycare_id c \<noteq> Some k) (classroom (snd (delete_daycare i s)))
      \<and> list_all (\<lambda>c. ch_daycare_id c \<noteq> Some k) (child (snd (delete_daycare i s))))
   \<and> (int4_in i = Inr k \<and> code (fst (delete_classroom i s)) = 200 \<longrightarrow>
      child (snd (delete_classroom i s))
        = map (\<lambda>c. if ch_classroom_id c = Some k then c\<lparr>ch_classroom_id := None\<rparr> else c) (child s)
      \<and> map ch_id (child (snd (delete_classroom i s))) = map ch_id (child s)
      \<and> list_all (\<lambda>c. ch_classroom_id c \<noteq> Some k) (child (snd (delete_classroom i s))))"
proof (intro conjI impI)
  assume a: "int4_in i = Inr k \<and> code (fst (delete_daycare i s)) = 200"
  then have ne: "filter (\<lambda>r. dc_id r = k) (daycare s) \<noteq> []"
    by (auto simp: delete_daycare_ok split: if_splits)
  from a show "list_all (\<lambda>c. cl_daycare_id c \<noteq> Some k) (classroom (snd (delete_daycare i s)))"
    by (simp add: delete_daycare_ok remove_daycares_classroom [OF ne] list_all_iff)
  from a show "list_all (\<lambda>c. ch_daycare_id c \<noteq> Some k) (child (snd (delete_daycare i s)))"
    by (simp add: delete_daycare_ok remove_daycares_child [OF ne])
next
  assume a: "int4_in i = Inr k \<and> code (fst (delete_classroom i s)) = 200"
  then have ne: "filter (\<lambda>r. cl_id r = k) (classroom s) \<noteq> []"
    by (auto simp: delete_classroom_ok split: if_splits)
  from a show eq: "child (snd (delete_classroom i s))
        = map (\<lambda>c. if ch_classroom_id c = Some k then c\<lparr>ch_classroom_id := None\<rparr> else c) (child s)"
    by (simp add: delete_classroom_ok remove_classrooms_child [OF ne])
  show "map ch_id (child (snd (delete_classroom i s))) = map ch_id (child s)"
    by (simp only: eq set_null_ids)
  show "list_all (\<lambda>c. ch_classroom_id c \<noteq> Some k) (child (snd (delete_classroom i s)))"
    by (simp only: eq set_null_all)
qed


lemma int4_in_1: "int4_in ''1'' = Inr 1"
  by (simp add: int4_in_def is_space_def is_digit_def nat_of_digits_def digit_val_def)


theorem delete_referential_actions_witness:
  "int4_in ''1'' = Inr 1 \<and> code (fst (delete_daycare ''1'' seed)) = 200
   \<and> map cl_id (classroom (snd (delete_daycare ''1'' seed))) = [3, 4]
   \<and> list_all (\<lambda>c. cl_daycare_id c \<noteq> Some 1) (classroom (snd (delete_daycare ''1'' seed)))
   \<and> list_all (\<lambda>c. ch_daycare_id c \<noteq> Some 1) (child (snd (delete_daycare ''1'' seed)))
   \<and> code (fst (delete_classroom ''1'' seed)) = 200
   \<and> map ch_id (child (snd (delete_classroom ''1'' seed))) = [1, 2, 3, 4, 5]
   \<and> map ch_classroom_id (child (snd (delete_classroom ''1'' seed)))
        = [None, Some 2, Some 3, Some 4, Some 2]"
proof -
  have ne: "filter (\<lambda>r. dc_id r = 1) (daycare seed) \<noteq> []"
    and ne': "filter (\<lambda>r. cl_id r = 1) (classroom seed) \<noteq> []"
    by (simp_all add: seed_def)
  have d: "delete_daycare ''1'' seed
      = (reply_json 200 (Message ''success'' ''Daycare deleted successfully''),
         remove_daycares (\<lambda>r. dc_id r = 1) seed)"
    using ne by (simp add: delete_daycare_ok [OF int4_in_1])
  have c: "delete_classroom ''1'' seed
      = (reply_json 200 (Message ''success'' ''Classroom deleted successfully''),
         remove_classrooms (\<lambda>r. cl_id r = 1) seed)"
    using ne' by (simp add: delete_classroom_ok [OF int4_in_1])
  have cls: "map cl_id (classroom (remove_daycares (\<lambda>r. dc_id r = 1) seed)) = [3, 4]"
    by (simp add: remove_daycares_classroom [OF ne]) (simp add: seed_def)
  from delete_referential_actions [of "''1''" 1 seed] show ?thesis
    by (simp add: int4_in_1 d c cls) (simp add: seed_def)
qed


section \<open>Integer text\<close>

lemma digits_plain: "\<forall>c \<in> set ''0123456789''. \<not> is_mark c \<and> lower c = c"
  by (simp add: is_mark_def lower_def)

lemma is_digit_plain: "is_digit c \<Longrightarrow> \<not> is_mark c \<and> lower c = c"
  using digits_plain by (simp only: is_digit_def) blast

lemma lex_digits:
  "list_all is_digit ds \<Longrightarrow> lex False w (ds @ rest) = lex False (w @ ds) rest"
proof (induction ds arbitrary: w)
  case Nil
  show ?case by simp
next
  case (Cons c ds)
  then have "is_digit c" and "list_all is_digit ds" by simp_all
  then have "lex False w ((c # ds) @ rest) = lex False (w @ [c]) (ds @ rest)"
    by (simp add: is_digit_plain is_digit_not_space is_digit_not_sign)
  with Cons.IH [OF \<open>list_all is_digit ds\<close>, of "w @ [c]"] show ?case by simp
qed

lemma minus_plain: "\<not> is_space CHR ''-'' \<and> \<not> is_mark CHR ''-'' \<and> lower CHR ''-'' = CHR ''-''"
  by (simp add: is_space_def is_mark_def lower_def)

lemma lex_number: "lex False w (js_number k @ rest) = lex False (w @ js_number k) rest"
proof (cases "k < 0")
  case False
  then show ?thesis by (simp add: js_number_def lex_digits digits_all_digit)
next
  case True
  obtain c cs where d: "digits (nat (- k)) = c # cs" and c: "is_digit c"
    by (rule digits_head)
  have "lex False w (CHR ''-'' # digits (nat (- k)) @ rest)
          = lex False (w @ ''-'') (digits (nat (- k)) @ rest)"
    using c by (simp add: d minus_plain is_digit_not_sign)
  also have "\<dots> = lex False ((w @ ''-'') @ digits (nat (- k))) rest"
    by (rule lex_digits) (rule digits_all_digit)
  finally show ?thesis using True by (simp add: js_number_def)
qed

lemma lex_number_end: "lex False w (js_number k) = flush (w @ js_number k)"
  using lex_number [of w k "[]"] by simp

lemma lower_digits: "list_all is_digit ds \<Longrightarrow> map lower ds = ds"
  by (induction ds) (auto simp: is_digit_plain)

lemma lower_number: "map lower (js_number k) = js_number k"
  by (simp add: js_number_def minus_plain lower_digits digits_all_digit)

lemma number_not_empty: "js_number k \<noteq> []"
  by (simp add: js_number_def digits_not_empty)

lemma flush_number: "flush (js_number k) = [js_number k]"
proof -
  obtain c cs where eq: "js_number k = c # cs"
    using number_not_empty [of k] by (cases "js_number k") auto
  have "flush (c # cs) = [map lower (c # cs)]"
    by simp
  then show ?thesis
    using lower_number [of k] by (simp only: eq)
qed


lemma sql_int_number: "sql_int (js_number k) = Some k"
proof (cases "k < 0")
  case True
  then show ?thesis
    by (simp add: sql_int_def js_number_def Let_def digits_not_empty digits_all_digit
        nat_of_digits_digits)
next
  case False
  with digits_no_sign [of "nat k"] show ?thesis
    by (simp add: sql_int_def js_number_def Let_def digits_not_empty digits_all_digit
        nat_of_digits_digits del: One_nat_def)
qed

lemma number_not_semi: "js_number k \<noteq> '';''"
proof (cases "k < 0")
  case True
  then show ?thesis by (simp add: js_number_def)
next
  case False
  obtain c cs where "digits (nat k) = c # cs" and "is_digit c"
    by (rule digits_head)
  with False show ?thesis by (auto simp: js_number_def is_digit_def)
qed

lemmas lex_eval = lex_number lex_number_end flush_number is_space_def is_mark_def lower_def

lemma lex_select:
  "lex False [] (''SELECT * FROM public.enrollment WHERE public.enrollment.id='' @ js_number k
      @ '' ORDER BY id ASC'')
   = [''select'', ''*'', ''from'', ''public.enrollment'', ''where'', ''public.enrollment.id'', ''='',
      js_number k, ''order'', ''by'', ''id'', ''asc'']"
  by (simp add: lex_eval)

lemma lex_delete:
  "lex False [] (''DELETE FROM public.enrollment WHERE public.enrollment.id='' @ js_number k)
   = [''delete'', ''from'', ''public.enrollment'', ''where'', ''public.enrollment.id'', ''='',
      js_number k]"
  by (simp add: lex_eval)

lemma lex_update:
  "lex False [] (''UPDATE public.enrollment'' @ [CHR 0x0A]
       @ ''       SET child_id = '' @ js_number a
       @ '', parent_id = '' @ js_number b @ [CHR 0x0A]
       @ ''       WHERE id = '' @ js_number k @ [CHR 0x0A]
       @ ''       RETURNING *'')
   = [''update'', ''public.enrollment'', ''set'', ''child_id'', ''='', js_number a, '','',
      ''parent_id'', ''='', js_number b, ''where'', ''id'', ''='', js_number k, ''returning'', ''*'']"
  by (simp add: lex_eval)


lemmas parse_eval = parse_sql_def parse_stmt_def select_shape_def order_by_def delete_shape_def
  update_shape_def number_not_semi sql_int_number

lemma parse_select:
  "parse_sql (''SELECT * FROM public.enrollment WHERE public.enrollment.id='' @ js_number k
      @ '' ORDER BY id ASC'') = Some [Select k]"
  by (simp only: lex_select parse_sql_def) (simp add: parse_eval)

lemma parse_delete:
  "parse_sql (''DELETE FROM public.enrollment WHERE public.enrollment.id='' @ js_number k)
     = Some [Delete k]"
  by (simp only: lex_delete parse_sql_def) (simp add: parse_eval)

lemma parse_update:
  "parse_sql (''UPDATE public.enrollment'' @ [CHR 0x0A]
       @ ''       SET child_id = '' @ js_number a
       @ '', parent_id = '' @ js_number b @ [CHR 0x0A]
       @ ''       WHERE id = '' @ js_number k @ [CHR 0x0A]
       @ ''       RETURNING *'') = Some [Update a b k]"
  by (simp only: lex_update parse_sql_def) (simp add: parse_eval)


section \<open>The enrollment handlers on a decimal id\<close>

lemma get_enrollment_number:
  "get_enrollment (js_number k) s =
     (if filter (\<lambda>r. en_id r = k) (enrollment s) = []
      then reply_json 404 (Message ''not_found'' ''Enrollment not found'')
      else reply_json 200
             (Found (map Enrollment (sort_key en_id (filter (\<lambda>r. en_id r = k) (enrollment s))))),
      s)"
  by (simp only: get_enrollment_def query_text_def parse_select) (simp add: Let_def)

lemma delete_enrollment_number:
  "delete_enrollment (js_number k) s =
     (reply_json 200 (Message ''success'' ''Enrollment deleted successfully''),
      s\<lparr>enrollment := filter (\<lambda>r. en_id r \<noteq> k) (enrollment s)\<rparr>)"
  by (simp only: delete_enrollment_def query_text_def parse_delete) simp

lemma update_enrollment_number:
  assumes "b ''child_id'' = Some (JNum a)" and "b ''parent_id'' = Some (JNum c)"
    and "a \<noteq> 0" and "c \<noteq> 0"
  shows "update_enrollment (js_number k) b s =
     (case exec_stmt (Update a c k) s of
        Inl err \<Rightarrow> (reply_json 500 (Failed err), s)
      | Inr (result, s1) \<Rightarrow>
          (reply_json 200
             (Updated ''success'' ''Enrollment updated successfully''
                (map_option Enrollment (first_row (rows result)))), s1))"
proof -
  have "truthy (b ''child_id'')" and "truthy (b ''parent_id'')"
    and "template (b ''child_id'') = js_number a" and "template (b ''parent_id'') = js_number c"
    using assms by simp_all
  then show ?thesis
    by (simp only: update_enrollment_def Let_def query_text_def parse_update)
      (simp del: exec_stmt.simps split: sum.splits prod.splits list.splits)
qed


lemma decode_example:
  "decode ''2;DELETE%20FROM%20public.enrollment%20WHERE%20public.enrollment.id=1;--''
     = Some ''2;DELETE FROM public.enrollment WHERE public.enrollment.id=1;--''"
  by (simp add: hex_val_def lower_def ascii_char_def)

lemma injected_parse:
  "parse_sql (''SELECT * FROM public.enrollment WHERE public.enrollment.id=''
       @ ''2;DELETE FROM public.enrollment WHERE public.enrollment.id=1;--'' @ '' ORDER BY id ASC'')
     = Some [Select 2, Delete 1]"
  by (simp add: parse_sql_def parse_stmt_def select_shape_def order_by_def delete_shape_def
      update_shape_def sql_int_def is_space_def is_mark_def lower_def is_digit_def nat_of_digits_def
      digit_val_def)

lemma injected_get:
  "get_enrollment ''2;DELETE FROM public.enrollment WHERE public.enrollment.id=1;--'' seed
     = (reply_json 500 (Failed TypeError),
        seed\<lparr>enrollment := filter (\<lambda>r. en_id r \<noteq> 1) (enrollment seed)\<rparr>)"
  by (simp only: get_enrollment_def query_text_def injected_parse) (simp add: Let_def)


section \<open>Ids that match no row\<close>


lemma no_rows: "k \<notin> set (map key t) \<Longrightarrow> filter (\<lambda>r. key r = k) t = []"
  by (induction t) auto

lemma fits_cases:
  assumes "fits r"
  obtains v where "r = Inr v"
  using assms by (cases r) (simp_all add: fits_def)

lemma get_by_id_missing:
  assumes "int4_in i = Inr k"
  shows "k \<notin> set (map dc_id (daycare s)) \<Longrightarrow> code (fst (get_daycare i s)) = 404"
    and "k \<notin> set (map cl_id (classroom s)) \<Longrightarrow> code (fst (get_classroom i s)) = 404"
    and "k \<notin> set (map pa_id (parent s)) \<Longrightarrow> code (fst (get_parent i s)) = 404"
    and "k \<notin> set (map ch_id (child s)) \<Longrightarrow> code (fst (get_child i s)) = 404"
  using assms
  by (simp_all add: get_daycare_def get_classroom_def get_parent_def get_child_def
      query_by_id_def Let_def no_rows del: set_map)

lemma delete_by_id_missing:
  assumes "int4_in i = Inr k"
  shows "k \<notin> set (map dc_id (daycare s)) \<Longrightarrow> code (fst (delete_daycare i s)) = 404"
    and "k \<notin> set (map cl_id (classroom s)) \<Longrightarrow> code (fst (delete_classroom i s)) = 404"
    and "k \<notin> set (map pa_id (parent s)) \<Longrightarrow> code (fst (delete_parent i s)) = 404"
    and "k \<notin> set (map ch_id (child s)) \<Longrightarrow> code (fst (delete_child i s)) = 404"
  by (simp_all add: delete_daycare_ok [OF assms] delete_classroom_ok [OF assms]
      delete_parent_ok [OF assms] delete_child_ok [OF assms] no_rows del: set_map)

lemma update_daycare_missing:
  assumes "int4_in i = Inr k" and "k \<notin> set (map dc_id (daycare s))"
    and "truthy (b ''name'')" "truthy (b ''address'')" "truthy (b ''phone'')" "truthy (b ''email'')"
    and "fits (varchar_param 150 (prepareValue (b ''name'')))"
    and "fits (varchar_param 255 (prepareValue (b ''address'')))"
    and "fits (varchar_param 20 (prepareValue (b ''phone'')))"
    and "fits (varchar_param 150 (prepareValue (b ''email'')))"
  shows "update_daycare i b s = (reply_json 404 (Message ''not_found'' ''Daycare not found''), s)"
proof -
  from assms(7-10) obtain v1 v2 v3 v4 where
    "varchar_param 150 (prepareValue (b ''name'')) = Inr v1"
    "varchar_param 255 (prepareValue (b ''address'')) = Inr v2"
    "varchar_param 20 (prepareValue (b ''phone'')) = Inr v3"
    "varchar_param 150 (prepareValue (b ''email'')) = Inr v4"
    by (metis fits_cases)
  with assms(1,3-6) no_rows [OF assms(2)] show ?thesis
    by (simp add: update_daycare_def query_update_daycare_def Let_def)
qed

lemma update_classroom_missing:
  assumes "int4_in i = Inr k" and "k \<notin> set (map cl_id (classroom s))"
    and "truthy (b ''name'')" "truthy (b ''daycare_id'')"
    and "fits (varchar_param 100 (prepareValue (b ''name'')))"
    and "fits (int4_param (prepareValue (b ''daycare_id'')))"
  shows "update_classroom i b s = (reply_json 404 (Message ''not_found'' ''Classroom not found''), s)"
proof -
  from assms(5-6) obtain v1 v2 where
    "varchar_param 100 (prepareValue (b ''name'')) = Inr v1"
    "int4_param (prepareValue (b ''daycare_id'')) = Inr v2"
    by (metis fits_cases)
  with assms(1,3-4) no_rows [OF assms(2)] show ?thesis
    by (simp add: update_classroom_def query_update_classroom_def Let_def)
qed

lemma update_parent_missing:
  assumes "int4_in i = Inr k" and "k \<notin> set (map pa_id (parent s))"
    and "truthy (b ''name'')" "truthy (b ''phone'')" "truthy (b ''email'')"
    and "fits (varchar_param 100 (prepareValue (b ''name'')))"
    and "fits (varchar_param 20 (prepareValue (b ''phone'')))"
    and "fits (varchar_param 150 (prepareValue (b ''email'')))"
  shows "update_parent i b s = (reply_json 404 (Message ''not_found'' ''Parent not found''), s)"
proof -
  from assms(6-8) obtain v1 v2 v3 where
    "varchar_param 100 (prepareValue (b ''name'')) = Inr v1"
    "varchar_param 20 (prepareValue (b ''phone'')) = Inr v2"
    "varchar_param 150 (prepareValue (b ''email'')) = Inr v3"
    by (metis fits_cases)
  with assms(1,3-5) no_rows [OF assms(2)] show ?thesis
    by (simp add: update_parent_def query_update_parent_def Let_def)
qed

lemma update_child_missing:
  assumes "int4_in i = Inr k" and "k \<notin> set (map ch_id (child s))"
    and "truthy (b ''name'')" "truthy (b ''date_of_birth'')" "truthy (b ''classroom_id'')"
      "truthy (b ''daycare_id'')"
    and "fits (varchar_param 100 (prepareValue (b ''name'')))"
    and "fits (date_param d (prepareValue (b ''date_of_birth'')))"
    and "fits (int4_param (prepareValue (b ''classroom_id'')))"
    and "fits (int4_param (prepareValue (b ''daycare_id'')))"
  shows "update_child d i b s = (reply_json 404 (Message ''not_found'' ''Child not found''), s)"
proof -
  from assms(7-10) obtain v1 v2 v3 v4 where
    "varchar_param 100 (prepareValue (b ''name'')) = Inr v1"
    "date_param d (prepareValue (b ''date_of_birth'')) = Inr v2"
    "int4_param (prepareValue (b ''classroom_id'')) = Inr v3"
    "int4_param (prepareValue (b ''daycare_id'')) = Inr v4"
    by (metis fits_cases)
  with assms(1,3-6) no_rows [OF assms(2)] show ?thesis
    by (simp add: update_child_def query_update_child_def Let_def)
qed


text \<open>
  C1, as amended. Let the id be text that the engine reads as the 32-bit integer \<open>k\<close>,
  and let no row of the table have the key \<open>k\<close>. Then for daycare, classroom, parent and
  child, get-by-id and delete-by-id answer 404, and so does update-by-id when all
  required fields are truthy and convert to the types of their columns. For enrollment,
  with the id in decimal notation, get-by-id answers 404, and delete-by-id answers 200
  whether or not a row has the key.
\<close>

theorem missing_id_not_found:
  "(int4_in i = Inr k \<and> k \<notin> set (map dc_id (daycare s)) \<longrightarrow>
      code (fst (get_daycare i s)) = 404 \<and> code (fst (delete_daycare i s)) = 404
      \<and> (truthy (b ''name'') \<and> truthy (b ''address'') \<and> truthy (b ''phone'') \<and> truthy (b ''email'')
          \<and> fits (varchar_param 150 (prepareValue (b ''name'')))
          \<and> fits (varchar_param 255 (prepareValue (b ''address'')))
          \<and> fits (varchar_param 20 (prepareValue (b ''phone'')))
          \<and> fits (varchar_param 150 (prepareValue (b ''email'')))
          \<longrightarrow> code (fst (update_daycare i b s)) = 404))
   \<and> (int4_in i = Inr k \<and> k \<notin> set (map cl_id (classroom s)) \<longrightarrow>
      code (fst (get_classroom i s)) = 404 \<and> code (fst (delete_classroom i s)) = 404
      \<and> (truthy (b ''name'') \<and> truthy (b ''daycare_id'')
          \<and> fits (varchar_param 100 (prepareValue (b ''name'')))
          \<and> fits (int4_param (prepareValue (b ''daycare_id'')))
          \<longrightarrow> code (fst (update_classroom i b s)) = 404))
   \<and> (int4_in i = Inr k \<and> k \<notin> set (map pa_id (parent s)) \<longrightarrow>
      code (fst (get_parent i s)) = 404 \<and> code (fst (delete_parent i s)) = 404
      \<and> (truthy (b ''name'') \<and> truthy (b ''phone'') \<and> truthy (b ''email'')
          \<and> fits (varchar_param 100 (prepareValue (b ''name'')))
          \<and> fits (varchar_param 20 (prepareValue (b ''phone'')))
          \<and> fits (varchar_param 150 (prepareValue (b ''email'')))
          \<longrightarrow> code (fst (update_parent i b s)) = 404))
   \<and> (int4_in i = Inr k \<and> k \<notin> set (map ch_id (child s)) \<longrightarrow>
      code (fst (get_child i s)) = 404 \<and> code (fst (delete_child i s)) = 404
      \<and> (truthy (b ''name'') \<and> truthy (b ''date_of_birth'') \<and> truthy (b ''classroom_id'')
          \<and> truthy (b ''daycare_id'')
          \<and> fits (varchar_param 100 (prepareValue (b ''name'')))
          \<and> fits (date_param d (prepareValue (b ''date_of_birth'')))
          \<and> fits (int4_param (prepareValue (b ''classroom_id'')))
          \<and> fits (int4_param (prepareValue (b ''daycare_id'')))
          \<longrightarrow> code (fst (update_child d i b s)) = 404))
   \<and> (k \<notin> set (map en_id (enrollment s)) \<longrightarrow> code (fst (get_enrollment (js_number k) s)) = 404)
   \<and> code (fst (delete_enrollment (js_number k) s)) = 200"
proof (intro conjI impI; (elim conjE)?)
  show "code (fst (delete_enrollment (js_number k) s)) = 200"
    by (simp add: delete_enrollment_number)
next
  assume "k \<notin> set (map en_id (enrollment s))"
  then show "code (fst (get_enrollment (js_number k) s)) = 404"
    by (simp add: get_enrollment_number no_rows del: set_map)
qed (simp_all add: get_by_id_missing delete_by_id_missing update_daycare_missing
    update_classroom_missing update_parent_missing update_child_missing del: set_map)


lemma first_row_simps [simp]: "first_row [] = None" "first_row (r # rs) = Some r"
  by (simp_all add: first_row_def)

lemma update_enrollment_missing:
  assumes "b ''child_id'' = Some (JNum a)" and "b ''parent_id'' = Some (JNum c)"
    and "a \<noteq> 0" and "c \<noteq> 0" and "in_int4 a" and "in_int4 c"
    and "k \<notin> set (map en_id (enrollment s))"
  shows "update_enrollment (js_number k) b s
      = (reply_json 200 (Updated ''success'' ''Enrollment updated successfully'' None), s)"
  using assms(5,6) no_rows [OF assms(7)]
  by (simp add: update_enrollment_number [OF assms(1-4)])

lemma int4_in_999: "int4_in ''999'' = Inr 999"
  by (simp add: int4_in_def is_space_def is_digit_def nat_of_digits_def digit_val_def)

lemma js_number_999: "js_number 999 = ''999''"
  by (simp add: js_number_def digits.simps digit_char_def)

lemma seed_has_no_999:
  "999 \<notin> set (map dc_id (daycare seed))" "999 \<notin> set (map cl_id (classroom seed))"
  "999 \<notin> set (map pa_id (parent seed))" "999 \<notin> set (map ch_id (child seed))"
  "999 \<notin> set (map en_id (enrollment seed))"
  by (simp_all add: seed_def)

lemma example_body_truthy:
  "truthy (example_body ''name'')" "truthy (example_body ''address'')"
  "truthy (example_body ''phone'')" "truthy (example_body ''email'')"
  "truthy (example_body ''date_of_birth'')" "truthy (example_body ''classroom_id'')"
  "truthy (example_body ''daycare_id'')" "truthy (example_body ''child_id'')"
  "truthy (example_body ''parent_id'')"
  by (simp_all add: example_body_def)

lemma example_body_fits:
  "fits (varchar_param 150 (prepareValue (example_body ''name'')))"
  "fits (varchar_param 100 (prepareValue (example_body ''name'')))"
  "fits (varchar_param 255 (prepareValue (example_body ''address'')))"
  "fits (varchar_param 20 (prepareValue (example_body ''phone'')))"
  "fits (varchar_param 150 (prepareValue (example_body ''email'')))"
  "fits (date_param (date_in example_env) (prepareValue (example_body ''date_of_birth'')))"
  "fits (int4_param (prepareValue (example_body ''classroom_id'')))"
  "fits (int4_param (prepareValue (example_body ''daycare_id'')))"
  by (simp_all add: example_body_def example_env_def fits_def varchar_param_def varchar_in_def
      date_param_def int4_param_def int4_in_def js_number_def digits.simps digit_char_def
      is_space_def is_digit_def nat_of_digits_def digit_val_def)

theorem missing_id_not_found_witness:
  "int4_in ''999'' = Inr 999
   \<and> 999 \<notin> set (map dc_id (daycare seed)) \<and> 999 \<notin> set (map cl_id (classroom seed))
   \<and> 999 \<notin> set (map pa_id (parent seed)) \<and> 999 \<notin> set (map ch_id (child seed))
   \<and> 999 \<notin> set (map en_id (enrollment seed))
   \<and> code (fst (get_daycare ''999'' seed)) = 404
   \<and> code (fst (delete_daycare ''999'' seed)) = 404
   \<and> code (fst (update_daycare ''999'' example_body seed)) = 404
   \<and> code (fst (get_classroom ''999'' seed)) = 404
   \<and> code (fst (delete_classroom ''999'' seed)) = 404
   \<and> code (fst (update_classroom ''999'' example_body seed)) = 404
   \<and> code (fst (get_parent ''999'' seed)) = 404
   \<and> code (fst (delete_parent ''999'' seed)) = 404
   \<and> code (fst (update_parent ''999'' example_body seed)) = 404
   \<and> code (fst (get_child ''999'' seed)) = 404
   \<and> code (fst (delete_child ''999'' seed)) = 404
   \<and> code (fst (update_child (date_in example_env) ''999'' example_body seed)) = 404
   \<and> code (fst (get_enrollment ''999'' seed)) = 404
   \<and> code (fst (delete_enrollment ''999'' seed)) = 200"
  using missing_id_not_found [of "''999''" 999 seed example_body "date_in example_env"]
  by (simp only: int4_in_999 js_number_999 seed_has_no_999 example_body_truthy example_body_fits
      simp_thms)

text \<open>
  The claim as stated fails in two ways. Its own exception list is too short: the
  enrollment update answers 200 for an id that matches no row. And an update whose body
  is rejected answers 400 before the id is looked at, for every entity.
\<close>

theorem missing_id_other_answers:
  "999 \<notin> set (map en_id (enrollment seed))
   \<and> code (fst (update_enrollment ''999'' example_body seed)) = 200
   \<and> 999 \<notin> set (map dc_id (daycare seed))
   \<and> code (fst (update_daycare ''999'' Map.empty seed)) = 400"
proof -
  have "update_enrollment (js_number 999) example_body seed
      = (reply_json 200 (Updated ''success'' ''Enrollment updated successfully'' None), seed)"
    by (rule update_enrollment_missing [of example_body 3 4])
      (simp_all add: example_body_def in_int4_def seed_has_no_999 del: set_map)
  then show ?thesis
    by (simp add: js_number_999 seed_has_no_999 update_daycare_rejects del: set_map)
qed

text \<open>
  C9, as amended. With \<open>child_id\<close> and \<open>parent_id\<close> integers other than 0 within the
  32-bit range and an id in decimal notation that matches no row, the enrollment update
  answers 200 with status \<open>success\<close> and no \<open>updated_data\<close>, and the stored state is
  unchanged; it never answers 404, whatever the request.
\<close>

theorem update_enrollment_missing_id:
  "(b ''child_id'' = Some (JNum a) \<and> b ''parent_id'' = Some (JNum c) \<and> a \<noteq> 0 \<and> c \<noteq> 0
      \<and> in_int4 a \<and> in_int4 c \<and> k \<notin> set (map en_id (enrollment s))
      \<longrightarrow> update_enrollment (js_number k) b s
          = (reply_json 200 (Updated ''success'' ''Enrollment updated successfully'' None), s))
   \<and> code (fst (update_enrollment i b s)) \<noteq> 404"
proof
  show "b ''child_id'' = Some (JNum a) \<and> b ''parent_id'' = Some (JNum c) \<and> a \<noteq> 0 \<and> c \<noteq> 0
      \<and> in_int4 a \<and> in_int4 c \<and> k \<notin> set (map en_id (enrollment s))
      \<longrightarrow> update_enrollment (js_number k) b s
          = (reply_json 200 (Updated ''success'' ''Enrollment updated successfully'' None), s)"
    using update_enrollment_missing [of b a c k s] by blast
  show "code (fst (update_enrollment i b s)) \<noteq> 404"
    by (simp add: update_enrollment_def Let_def split: sum.splits prod.splits reply.splits)
qed

theorem update_enrollment_missing_id_witness:
  "example_body ''child_id'' = Some (JNum 3) \<and> example_body ''parent_id'' = Some (JNum 4)
   \<and> in_int4 3 \<and> in_int4 4 \<and> 999 \<notin> set (map en_id (enrollment seed))
   \<and> update_enrollment ''999'' example_body seed
       = (reply_json 200 (Updated ''success'' ''Enrollment updated successfully'' None), seed)"
  using update_enrollment_missing_id [of example_body 3 4 999 seed]
  by (simp add: js_number_999 seed_has_no_999 example_body_def in_int4_def del: set_map)

text \<open>
  The claim as stated takes any truthy values. The two fields are written into the
  statement text, so a truthy value that is not a number gives a statement that the
  engine rejects, and the handler answers 500: here \<open>child_id\<close> is \<open>true\<close>.
\<close>

theorem update_enrollment_truthy_rejected:
  "truthy ([''child_id'' \<mapsto> JBool True, ''parent_id'' \<mapsto> JNum 1] ''child_id'')
   \<and> truthy ([''child_id'' \<mapsto> JBool True, ''parent_id'' \<mapsto> JNum 1] ''parent_id'')
   \<and> 999 \<notin> set (map en_id (enrollment seed))
   \<and> fst (update_enrollment ''999'' [''child_id'' \<mapsto> JBool True, ''parent_id'' \<mapsto> JNum 1] seed)
       = reply_json 500 (Failed SyntaxError)"
  by (simp add: seed_has_no_999 update_enrollment_def query_text_def parse_sql_def parse_stmt_def
      select_shape_def order_by_def delete_shape_def update_shape_def sql_int_def is_space_def
      is_mark_def lower_def is_digit_def js_number_def digits.simps digit_char_def del: set_map)


section \<open>Requests that only read\<close>

text \<open>
  The handlers of \<open>GET\<close> routes that send statements with parameters, or none, give back
  the stored state that they were given.
\<close>

lemma reads_keep_state:
  "snd (health s) = s"
  "snd (get_daycares s) = s" "snd (get_classrooms s) = s" "snd (get_enrollments s) = s"
  "snd (get_children s) = s" "snd (get_parents s) = s"
  "snd (get_daycare i s) = s" "snd (get_classroom i s) = s" "snd (get_child i s) = s"
  "snd (get_parent i s) = s"
  "snd (scrape st) = st"
  by (simp_all add: health_def get_daycares_eq get_classrooms_eq get_enrollments_eq
      get_children_eq get_parents_eq get_daycare_def get_classroom_def get_child_def
      get_parent_def scrape_def split: sum.splits)

text \<open>So does the enrollment lookup when the id is a number in decimal notation.\<close>

lemma get_enrollment_keeps_state: "snd (get_enrollment (js_number k) s) = s"
  by (simp add: get_enrollment_number)

lemma dispatch_injected:
  "dispatch layers False ''GET''
     ''/get_enrollment/2;DELETE%20FROM%20public.enrollment%20WHERE%20public.enrollment.id=1;--''
   = Handler ''/get_enrollment/:id'' GetEnrollment
       [''2;DELETE%20FROM%20public.enrollment%20WHERE%20public.enrollment.id=1;--'']"
  by (simp add: layers_def match_path_def lower_def under_def serves_def)

lemma seed_enrollment_ids: "map en_id (enrollment seed) = [1, 2, 3, 4, 5]"
  by (simp add: seed_def)

text \<open>
  C10. The claim fails for \<open>GET /get_enrollment/:id\<close>: the handler writes the path
  parameter into the text of its statement, and the text is sent without parameters, so
  it may hold further statements. With the id
  \<open>2;DELETE FROM public.enrollment WHERE public.enrollment.id=1;--\<close> the request is
  answered with 500 (the driver gives an array of two results, and reading \<open>rows.length\<close>
  of it raises) after the enrollment with id 1 has been deleted.
\<close>

theorem get_enrollment_changes_rows:
  "req_method (example_request ''GET''
      ''/get_enrollment/2;DELETE%20FROM%20public.enrollment%20WHERE%20public.enrollment.id=1;--'')
     = ''GET''
   \<and> map en_id (enrollment (stored start)) = [1, 2, 3, 4, 5]
   \<and> code (fst (app example_env (example_request ''GET''
        ''/get_enrollment/2;DELETE%20FROM%20public.enrollment%20WHERE%20public.enrollment.id=1;--'')
        start)) = 500
   \<and> map en_id (enrollment (stored (snd (app example_env (example_request ''GET''
        ''/get_enrollment/2;DELETE%20FROM%20public.enrollment%20WHERE%20public.enrollment.id=1;--'')
        start)))) = [2, 3, 4, 5]"
proof -
  have "router example_env Map.empty (example_request ''GET''
        ''/get_enrollment/2;DELETE%20FROM%20public.enrollment%20WHERE%20public.enrollment.id=1;--'')
        start
      = ((reply_json 500 (Failed TypeError), Some ''/get_enrollment/:id'',
          ''/get_enrollment/2;DELETE%20FROM%20public.enrollment%20WHERE%20public.enrollment.id=1;--''),
         start\<lparr>stored := seed\<lparr>enrollment := filter (\<lambda>r. en_id r \<noteq> 1) (enrollment seed)\<rparr>\<rparr>)"
    by (simp add: router_def example_request_def dispatch_injected decode_example on_db_def
        injected_get start_def del: decode.simps)
  then show ?thesis
    by (simp add: app_def metricsMiddleware_def example_request_def start_def)
      (simp add: seed_def)
qed


section \<open>Updating a stored row\<close>

























end
